theory Spec2Isabelle
  imports Main "HOL-Library.AList"
begin

section \<open>Domain model (models.py)\<close>

text \<open>
  The enumeration \<open>RoomType\<close> of models.py with its string values. Identities, days and
  slot indices are Python integers, hence \<open>int\<close>. A \<open>time\<close> value (hour and minute of a
  day) is the number of minutes since midnight. Columns that no modelled function reads
  (names, capacities, creation stamps) are left out of the rows.
\<close>

datatype RoomType = LECTURE | LAB | COMPUTER_LAB | CONFERENCE

fun RoomType_value :: "RoomType \<Rightarrow> string" where
  "RoomType_value LECTURE = ''lecture''"
| "RoomType_value LAB = ''lab''"
| "RoomType_value COMPUTER_LAB = ''computer_lab''"
| "RoomType_value CONFERENCE = ''conference''"

record Assignment =
  asg_id :: int
  asg_course_id :: int
  asg_section_id :: int
  asg_teacher_id :: int
  asg_group_id :: "string option"
  asg_department :: string
  asg_user_id :: int

text \<open>
  The columns \<open>availability\<close> and \<open>days_off\<close> hold JSON text or NULL; the row carries the
  decoded value, \<open>None\<close> for NULL (dept.py stores NULL for an absent or empty value).
\<close>

record Teacher =
  tch_id :: int
  tch_max_hours_per_day :: int
  tch_availability :: "bool list list option"
  tch_days_off :: "int list option"
  tch_department :: string
  tch_user_id :: int

record Course =
  crs_id :: int
  crs_duration_minutes :: int
  crs_sessions_per_week :: int
  crs_room_type :: RoomType
  crs_department :: string
  crs_user_id :: int

record Classroom =
  cls_id :: int
  cls_room_id :: string
  cls_room_type :: RoomType
  cls_capacity :: int
  cls_department :: string
  cls_user_id :: int

text \<open>
  \<open>rule_data\<close> is a JSON object; the model keeps the keys the model builder reads, each
  absent (\<open>None\<close>) or an integer, and the list under \<open>pairs\<close>.
\<close>

record forbidden_pair =
  fp_assignment_id :: "int option"
  fp_day :: "int option"
  fp_slot :: "int option"

record rule_data =
  rd_start_slot :: "int option"
  rd_end_slot :: "int option"
  rd_penalty :: "int option"
  rd_pairs :: "forbidden_pair list option"

record Rule =
  rul_id :: int
  rul_name :: string
  rul_rule_type :: string
  rul_rule_data :: rule_data
  rul_department :: string
  rul_user_id :: int

text \<open>
  The exceptions the modelled code raises: the StopIteration of \<open>next\<close> on an exhausted
  generator and the TypeError of \<open>json.dumps\<close> on a value that is not JSON serialisable.
\<close>

datatype py_error = StopIteration | TypeError

text \<open>
  The dictionary \<open>solver_stats\<close>: a value is a string, an integer, \<open>None\<close>, or the repeated
  field \<open>variables\<close> of the model's protocol buffer (a container object, not a number).
  \<open>json.dumps\<close> raises TypeError on a dictionary holding such a container; the JSON text
  of any other dictionary is kept as the dictionary it encodes.
\<close>

datatype stat_value = StatStr string | StatInt int | StatNone | StatProtoVariables

type_synonym solver_stats = "(string \<times> stat_value) list"

fun json_serialisable :: "stat_value \<Rightarrow> bool" where
  "json_serialisable (StatStr s) = True"
| "json_serialisable (StatInt n) = True"
| "json_serialisable StatNone = True"
| "json_serialisable StatProtoVariables = False"

definition json_dumps :: "solver_stats \<Rightarrow> py_error + solver_stats" where
  "json_dumps d = (if list_all (\<lambda>(k, v). json_serialisable v) d then Inr d else Inl TypeError)"

text \<open>
  \<open>generation_log\<close> is \<open>Solver failed: <status>\<close> or \<open>Generation error: <exception>\<close>; the
  text is kept as its kind and its argument.
\<close>

datatype generation_log = SolverFailed string | GenerationError py_error

record DeptTimetable =
  tt_id :: int
  tt_department :: string
  tt_user_id :: int
  tt_status :: string
  tt_generation_log :: "generation_log option"
  tt_solver_stats :: "solver_stats option"

record ScheduledSlot =
  ss_id :: int
  dept_timetable_id :: int
  assignment_id :: int
  classroom_id :: int
  day_of_week :: int
  start_time :: int
  end_time :: int
  ss_department :: string
  is_global_slot :: bool

text \<open>
  The store: one list of rows per relation, and the next primary key of each relation the
  modelled code inserts into.
\<close>

record database =
  db_assignments :: "Assignment list"
  db_teachers :: "Teacher list"
  db_courses :: "Course list"
  db_classrooms :: "Classroom list"
  db_rules :: "Rule list"
  db_timetables :: "DeptTimetable list"
  db_slots :: "ScheduledSlot list"
  db_next_slot_id :: int
  db_next_timetable_id :: int
  db_next_rule_id :: int

section \<open>Time grid (scheduler.py, global_scheduler.py)\<close>

definition start_hour :: int where "start_hour = 8"
definition end_hour :: int where "end_hour = 18"
definition slot_duration :: int where "slot_duration = 55"
definition num_days :: int where "num_days = 5"

definition num_slots_per_day :: int where
  "num_slots_per_day = (end_hour - start_hour) * 60 div slot_duration"

text \<open>Python's \<open>range(n)\<close> and \<open>range(a, b)\<close> on integers.\<close>

definition py_range :: "int \<Rightarrow> int list" where
  "py_range n = [0..n - 1]"

definition py_range2 :: "int \<Rightarrow> int \<Rightarrow> int list" where
  "py_range2 a b = [a..b - 1]"

text \<open>
  \<open>_slot_to_time\<close> and \<open>_add_minutes_to_time\<close> add a \<open>timedelta\<close> to a \<open>datetime\<close> of
  today and keep its \<open>.time()\<close>: the date is dropped, so the result is taken modulo one day.
\<close>

definition minutes_per_day :: int where "minutes_per_day = 24 * 60"

definition slot_to_time :: "int \<Rightarrow> int" where
  "slot_to_time slot = (start_hour * 60 + slot * slot_duration) mod minutes_per_day"

definition add_minutes_to_time :: "int \<Rightarrow> int \<Rightarrow> int" where
  "add_minutes_to_time start minutes = (start + minutes) mod minutes_per_day"

definition time_to_slot :: "int \<Rightarrow> int" where
  "time_to_slot time_obj = (time_obj - start_hour * 60) div slot_duration"

section \<open>Room-type compatibility (scheduler.py)\<close>

text \<open>
  \<open>TimetableScheduler._is_room_compatible\<close>: both arguments are turned into their string
  values and compared as strings, in the order of the source.
\<close>

definition is_room_compatible :: "RoomType \<Rightarrow> RoomType \<Rightarrow> bool" where
  "is_room_compatible course_room_type classroom_room_type =
     (let course_type_str = RoomType_value course_room_type;
          classroom_type_str = RoomType_value classroom_room_type
      in if course_type_str = classroom_type_str then True
         else if course_type_str = ''lecture'' \<and> classroom_type_str = ''conference'' then True
         else if course_type_str = ''lab'' \<and> classroom_type_str = ''computer_lab'' then True
         else False)"

text \<open>
  The table of section 3 of the specification, written from its words: the classroom
  room types acceptable for a course room type.
\<close>

fun spec_acceptable_room_types :: "RoomType \<Rightarrow> RoomType set" where
  "spec_acceptable_room_types LECTURE = {LECTURE, CONFERENCE}"
| "spec_acceptable_room_types LAB = {LAB, COMPUTER_LAB}"
| "spec_acceptable_room_types COMPUTER_LAB = {COMPUTER_LAB}"
| "spec_acceptable_room_types CONFERENCE = {CONFERENCE}"

section \<open>Data loader (TimetableScheduler.load_data)\<close>

text \<open>
  The dictionary built for a teacher holds the decoded availability (\<open>None\<close> when the
  column is empty) and the decoded days off (\<open>[]\<close> when the column is empty). The other
  dictionaries copy columns of their row, so the snapshot keeps the rows themselves.
\<close>

record teacher_dict =
  td_id :: int
  td_max_hours_per_day :: int
  td_availability :: "bool list list option"
  td_days_off :: "int list"

record snapshot =
  assignments :: "Assignment list"
  teachers :: "teacher_dict list"
  courses :: "Course list"
  classrooms :: "Classroom list"
  rules :: "Rule list"

definition teacher_to_dict :: "Teacher \<Rightarrow> teacher_dict" where
  "teacher_to_dict teacher =
     \<lparr> td_id = tch_id teacher,
       td_max_hours_per_day = tch_max_hours_per_day teacher,
       td_availability = tch_availability teacher,
       td_days_off = (case tch_days_off teacher of None \<Rightarrow> [] | Some ds \<Rightarrow> ds) \<rparr>"

definition load_data :: "database \<Rightarrow> string \<Rightarrow> int \<Rightarrow> snapshot" where
  "load_data db department user_id =
     \<lparr> assignments =
         filter (\<lambda>a. asg_department a = department \<and> asg_user_id a = user_id) (db_assignments db),
       teachers =
         map teacher_to_dict
           (filter (\<lambda>t. tch_department t = department \<and> tch_user_id t = user_id) (db_teachers db)),
       courses =
         filter (\<lambda>c. crs_department c = department \<and> crs_user_id c = user_id) (db_courses db),
       classrooms =
         filter (\<lambda>c. cls_department c = department \<and> cls_user_id c = user_id) (db_classrooms db),
       rules =
         filter (\<lambda>r. rul_department r = department \<and> rul_user_id r = user_id) (db_rules db) \<rparr>"

section \<open>CP model builder (scheduler.py)\<close>

text \<open>
  A key of \<open>schedule_vars\<close> is (assignment id, classroom id, day, slot). Every variable of
  the model is a Boolean variable: a schedule variable named by its key, a teacher or a
  room occupation variable, or a gap indicator, each named by (id, day, slot). A
  constraint is one call of \<open>model.Add\<close>; an objective term is a variable times a weight.
\<close>

type_synonym key = "int \<times> int \<times> int \<times> int"

datatype var =
    ScheduleVar key
  | TeacherVar int int int
  | RoomVar int int int
  | GapVar int int int

datatype constr =
    SumEq "var list" int
  | SumLe "var list" int
  | VarEq var int
  | VarsEq var var

text \<open>\<open>next(c for c in self.courses if c['id'] == i)\<close>: the first match, or StopIteration.\<close>

definition next_course :: "Course list \<Rightarrow> int \<Rightarrow> py_error + Course" where
  "next_course cs i =
     (case List.find (\<lambda>c. crs_id c = i) cs of None \<Rightarrow> Inl StopIteration | Some c \<Rightarrow> Inr c)"

definition next_assignment :: "Assignment list \<Rightarrow> int \<Rightarrow> py_error + Assignment" where
  "next_assignment as i =
     (case List.find (\<lambda>a. asg_id a = i) as of None \<Rightarrow> Inl StopIteration | Some a \<Rightarrow> Inr a)"

definition next_classroom :: "Classroom list \<Rightarrow> int \<Rightarrow> py_error + Classroom" where
  "next_classroom cs i =
     (case List.find (\<lambda>c. cls_id c = i) cs of None \<Rightarrow> Inl StopIteration | Some c \<Rightarrow> Inr c)"

text \<open>
  \<open>schedule_vars\<close> is a dictionary: storing under a key that is present keeps its place,
  a new key goes to the end.
\<close>

definition dict_add :: "'a list \<Rightarrow> 'a \<Rightarrow> 'a list" where
  "dict_add ks k = (if k \<in> set ks then ks else ks @ [k])"

definition grid_keys :: "int \<Rightarrow> int \<Rightarrow> key list" where
  "grid_keys aid cid =
     [(aid, cid, day, slot). day \<leftarrow> py_range num_days, slot \<leftarrow> py_range num_slots_per_day]"

fun vars_of_classrooms ::
  "Course list \<Rightarrow> Assignment \<Rightarrow> Classroom list \<Rightarrow> key list \<Rightarrow> py_error + key list" where
  "vars_of_classrooms cs a [] acc = Inr acc"
| "vars_of_classrooms cs a (classroom # rest) acc =
     (case next_course cs (asg_course_id a) of
        Inl e \<Rightarrow> Inl e
      | Inr course \<Rightarrow>
          vars_of_classrooms cs a rest
            (if is_room_compatible (crs_room_type course) (cls_room_type classroom)
             then fold (\<lambda>k ks. dict_add ks k) (grid_keys (asg_id a) (cls_id classroom)) acc
             else acc))"

fun vars_of_assignments ::
  "Course list \<Rightarrow> Classroom list \<Rightarrow> Assignment list \<Rightarrow> key list \<Rightarrow> py_error + key list" where
  "vars_of_assignments cs rooms [] acc = Inr acc"
| "vars_of_assignments cs rooms (a # rest) acc =
     (case vars_of_classrooms cs a rooms acc of
        Inl e \<Rightarrow> Inl e
      | Inr acc' \<Rightarrow> vars_of_assignments cs rooms rest acc')"

record decision_variables =
  schedule_vars :: "key list"
  teacher_vars :: "(int \<times> int \<times> int) list"
  room_vars :: "(int \<times> int \<times> int) list"

definition occupation_keys :: "int list \<Rightarrow> (int \<times> int \<times> int) list" where
  "occupation_keys ids =
     fold (\<lambda>k ks. dict_add ks k)
       [(i, day, slot). i \<leftarrow> ids, day \<leftarrow> py_range num_days, slot \<leftarrow> py_range num_slots_per_day] []"

definition create_decision_variables :: "snapshot \<Rightarrow> py_error + decision_variables" where
  "create_decision_variables snap =
     (case vars_of_assignments (courses snap) (classrooms snap) (assignments snap) [] of
        Inl e \<Rightarrow> Inl e
      | Inr ks \<Rightarrow>
          Inr \<lparr> schedule_vars = ks,
                teacher_vars = occupation_keys (map td_id (teachers snap)),
                room_vars = occupation_keys (map cls_id (classrooms snap)) \<rparr>)"

subsection \<open>Hard constraints (add_hard_constraints)\<close>

text \<open>
  The inner loops of the source that collect, for one teacher and one (day, slot), the
  schedule variables of the teacher's assignments over all classrooms.
\<close>

definition classroom_ids :: "snapshot \<Rightarrow> int list" where
  "classroom_ids snap = map cls_id (classrooms snap)"

definition teacher_cell_vars :: "snapshot \<Rightarrow> key list \<Rightarrow> int \<Rightarrow> int \<Rightarrow> int \<Rightarrow> var list" where
  "teacher_cell_vars snap sv teacher_id day slot =
     [ScheduleVar (asg_id a, cid, day, slot).
        a \<leftarrow> assignments snap, asg_teacher_id a = teacher_id,
        cid \<leftarrow> classroom_ids snap, (asg_id a, cid, day, slot) \<in> set sv]"

text \<open>1. Each assignment must be scheduled exactly according to sessions per week.\<close>

fun session_constraints ::
  "Course list \<Rightarrow> key list \<Rightarrow> Assignment list \<Rightarrow> py_error + constr list" where
  "session_constraints cs sv [] = Inr []"
| "session_constraints cs sv (a # rest) =
     (case next_course cs (asg_course_id a) of
        Inl e \<Rightarrow> Inl e
      | Inr course \<Rightarrow>
          (case session_constraints cs sv rest of
             Inl e \<Rightarrow> Inl e
           | Inr others \<Rightarrow>
               (let sessions_needed = crs_sessions_per_week course;
                    assignment_vars = [ScheduleVar k. k \<leftarrow> sv, fst k = asg_id a]
                in Inr ((if assignment_vars \<noteq> [] then [SumEq assignment_vars sessions_needed]
                         else []) @ others))))"

text \<open>2. No teacher can be in two places at once.\<close>

definition teacher_overlap_constraints :: "snapshot \<Rightarrow> key list \<Rightarrow> constr list" where
  "teacher_overlap_constraints snap sv =
     [SumLe (teacher_cell_vars snap sv (td_id teacher) day slot) 1.
        teacher \<leftarrow> teachers snap, day \<leftarrow> py_range num_days,
        slot \<leftarrow> py_range num_slots_per_day,
        teacher_cell_vars snap sv (td_id teacher) day slot \<noteq> []]"

text \<open>3. No classroom can have multiple classes at once.\<close>

definition room_cell_vars :: "snapshot \<Rightarrow> key list \<Rightarrow> int \<Rightarrow> int \<Rightarrow> int \<Rightarrow> var list" where
  "room_cell_vars snap sv room day slot =
     [ScheduleVar (asg_id a, room, day, slot).
        a \<leftarrow> assignments snap, (asg_id a, room, day, slot) \<in> set sv]"

definition room_overlap_constraints :: "snapshot \<Rightarrow> key list \<Rightarrow> constr list" where
  "room_overlap_constraints snap sv =
     [SumLe (room_cell_vars snap sv (cls_id classroom) day slot) 1.
        classroom \<leftarrow> classrooms snap, day \<leftarrow> py_range num_days,
        slot \<leftarrow> py_range num_slots_per_day,
        room_cell_vars snap sv (cls_id classroom) day slot \<noteq> []]"

text \<open>
  4. Teacher availability constraints. The whole block, the days off included, is under
  \<open>if teacher['availability']\<close>: it is skipped when the matrix is \<open>None\<close> or empty.
\<close>

definition day_off_constraints :: "snapshot \<Rightarrow> key list \<Rightarrow> int \<Rightarrow> int \<Rightarrow> constr list" where
  "day_off_constraints snap sv teacher_id day =
     [VarEq (ScheduleVar (asg_id a, cid, day, slot)) 0.
        a \<leftarrow> assignments snap, asg_teacher_id a = teacher_id,
        cid \<leftarrow> classroom_ids snap, slot \<leftarrow> py_range num_slots_per_day,
        (asg_id a, cid, day, slot) \<in> set sv]"

definition slot_unavailable_constraints ::
  "snapshot \<Rightarrow> key list \<Rightarrow> int \<Rightarrow> int \<Rightarrow> int \<Rightarrow> constr list" where
  "slot_unavailable_constraints snap sv teacher_id day slot =
     [VarEq (ScheduleVar (asg_id a, cid, day, slot)) 0.
        a \<leftarrow> assignments snap, asg_teacher_id a = teacher_id,
        cid \<leftarrow> classroom_ids snap, (asg_id a, cid, day, slot) \<in> set sv]"

definition teacher_availability_constraints ::
  "snapshot \<Rightarrow> key list \<Rightarrow> teacher_dict \<Rightarrow> constr list" where
  "teacher_availability_constraints snap sv teacher =
     (case td_availability teacher of
        None \<Rightarrow> []
      | Some availability \<Rightarrow>
          if availability = [] then []
          else concat (map (\<lambda>day.
            if day \<in> set (td_days_off teacher) then day_off_constraints snap sv (td_id teacher) day
            else if day < int (length availability) then
              (let day_availability = availability ! nat day
               in concat (map (\<lambda>slot.
                    if \<not> day_availability ! nat slot
                    then slot_unavailable_constraints snap sv (td_id teacher) day slot
                    else [])
                  (py_range (min (int (length day_availability)) num_slots_per_day))))
            else []) (py_range num_days)))"

definition availability_constraints :: "snapshot \<Rightarrow> key list \<Rightarrow> constr list" where
  "availability_constraints snap sv =
     concat (map (teacher_availability_constraints snap sv) (teachers snap))"

text \<open>5. Maximum hours per day per teacher.\<close>

definition teacher_day_vars :: "snapshot \<Rightarrow> key list \<Rightarrow> int \<Rightarrow> int \<Rightarrow> var list" where
  "teacher_day_vars snap sv teacher_id day =
     [ScheduleVar (asg_id a, cid, day, slot).
        a \<leftarrow> assignments snap, asg_teacher_id a = teacher_id,
        cid \<leftarrow> classroom_ids snap, slot \<leftarrow> py_range num_slots_per_day,
        (asg_id a, cid, day, slot) \<in> set sv]"

definition max_hours_constraints :: "snapshot \<Rightarrow> key list \<Rightarrow> constr list" where
  "max_hours_constraints snap sv =
     [SumLe (teacher_day_vars snap sv (td_id teacher) day)
            (td_max_hours_per_day teacher * 60 div slot_duration).
        teacher \<leftarrow> teachers snap, day \<leftarrow> py_range num_days,
        teacher_day_vars snap sv (td_id teacher) day \<noteq> []]"

text \<open>
  6. Group constraints. \<open>group_assignments\<close> is a dictionary from each non-empty
  \<open>group_id\<close>, in the order of first appearance, to the assignments carrying it.
\<close>

definition group_ids :: "snapshot \<Rightarrow> string list" where
  "group_ids snap =
     fold (\<lambda>a ks. case asg_group_id a of
                     None \<Rightarrow> ks
                   | Some g \<Rightarrow> if g = [] then ks else dict_add ks g)
          (assignments snap) []"

definition group_cell_vars ::
  "snapshot \<Rightarrow> key list \<Rightarrow> Assignment list \<Rightarrow> int \<Rightarrow> int \<Rightarrow> var list" where
  "group_cell_vars snap sv members day slot =
     [ScheduleVar (asg_id a, cid, day, slot).
        a \<leftarrow> members, cid \<leftarrow> classroom_ids snap, (asg_id a, cid, day, slot) \<in> set sv]"

definition chain_equal :: "var list \<Rightarrow> constr list" where
  "chain_equal group_vars =
     (if length group_vars > 1
      then [VarsEq (group_vars ! i) (group_vars ! (i + 1)). i \<leftarrow> [0..<length group_vars - 1]]
      else [])"

definition group_constraints :: "snapshot \<Rightarrow> key list \<Rightarrow> constr list" where
  "group_constraints snap sv =
     concat (map (\<lambda>group_id.
       (let members = filter (\<lambda>a. asg_group_id a = Some group_id) (assignments snap)
        in if length members > 1
           then concat [chain_equal (group_cell_vars snap sv members day slot).
                          day \<leftarrow> py_range num_days, slot \<leftarrow> py_range num_slots_per_day]
           else [])) (group_ids snap))"

definition add_hard_constraints :: "snapshot \<Rightarrow> key list \<Rightarrow> py_error + constr list" where
  "add_hard_constraints snap sv =
     (case session_constraints (courses snap) sv (assignments snap) of
        Inl e \<Rightarrow> Inl e
      | Inr session \<Rightarrow>
          Inr (session @ teacher_overlap_constraints snap sv @ room_overlap_constraints snap sv
               @ availability_constraints snap sv @ max_hours_constraints snap sv
               @ group_constraints snap sv))"

subsection \<open>Soft constraints and objective (add_soft_constraints)\<close>

definition gap_penalty :: int where "gap_penalty = 10"
definition time_preference_penalty :: int where "time_preference_penalty = 5"

text \<open>
  1. Teacher gaps. For a teacher, a day and a slot below \<open>num_slots_per_day - 2\<close> the source
  collects the teacher's variables at slot, slot + 2 and slot + 1; when none of the three
  lists is empty it creates a new Boolean \<open>gap_var\<close> and appends \<open>gap_var * gap_penalty\<close> to
  the objective. The three sums are computed and not used: no constraint mentions
  \<open>gap_var\<close>.
\<close>

definition gap_terms :: "snapshot \<Rightarrow> key list \<Rightarrow> (var \<times> int) list" where
  "gap_terms snap sv =
     [(GapVar (td_id teacher) day slot, gap_penalty).
        teacher \<leftarrow> teachers snap, day \<leftarrow> py_range num_days,
        slot \<leftarrow> py_range (num_slots_per_day - 2),
        teacher_cell_vars snap sv (td_id teacher) day slot \<noteq> []
        \<and> teacher_cell_vars snap sv (td_id teacher) day (slot + 2) \<noteq> []
        \<and> teacher_cell_vars snap sv (td_id teacher) day (slot + 1) \<noteq> []]"

text \<open>2. First and last slot of a day.\<close>

definition time_preference_terms :: "snapshot \<Rightarrow> key list \<Rightarrow> (var \<times> int) list" where
  "time_preference_terms snap sv =
     [(ScheduleVar (asg_id a, cid, day, slot), time_preference_penalty).
        a \<leftarrow> assignments snap, cid \<leftarrow> classroom_ids snap, day \<leftarrow> py_range num_days,
        slot \<leftarrow> [0, num_slots_per_day - 1], (asg_id a, cid, day, slot) \<in> set sv]"

text \<open>\<open>rule_data.get(k, default)\<close>.\<close>

definition get_default :: "'a option \<Rightarrow> 'a \<Rightarrow> 'a" where
  "get_default v d = (case v of None \<Rightarrow> d | Some x \<Rightarrow> x)"

definition add_lunch_window_constraint ::
  "snapshot \<Rightarrow> key list \<Rightarrow> rule_data \<Rightarrow> (var \<times> int) list" where
  "add_lunch_window_constraint snap sv rd =
     (let lunch_start = get_default (rd_start_slot rd) 5;
          lunch_end = get_default (rd_end_slot rd) 6;
          penalty = get_default (rd_penalty rd) 20
      in [(ScheduleVar (asg_id a, cid, day, slot), penalty).
            a \<leftarrow> assignments snap, cid \<leftarrow> classroom_ids snap, day \<leftarrow> py_range num_days,
            slot \<leftarrow> py_range2 lunch_start (lunch_end + 1),
            (asg_id a, cid, day, slot) \<in> set sv])"

definition add_gap_preference_constraint ::
  "snapshot \<Rightarrow> key list \<Rightarrow> rule_data \<Rightarrow> (var \<times> int) list" where
  "add_gap_preference_constraint snap sv rd = []"

definition forbidden_pair_constraints :: "snapshot \<Rightarrow> key list \<Rightarrow> forbidden_pair \<Rightarrow> constr list" where
  "forbidden_pair_constraints snap sv pair =
     (case (fp_assignment_id pair, fp_day pair, fp_slot pair) of
        (Some aid, Some forbidden_day, Some forbidden_slot) \<Rightarrow>
          if aid \<noteq> 0
          then [VarEq (ScheduleVar (aid, cid, forbidden_day, forbidden_slot)) 0.
                  cid \<leftarrow> classroom_ids snap,
                  (aid, cid, forbidden_day, forbidden_slot) \<in> set sv]
          else []
      | _ \<Rightarrow> [])"

definition add_forbidden_time_pairs_constraint ::
  "snapshot \<Rightarrow> key list \<Rightarrow> rule_data \<Rightarrow> constr list" where
  "add_forbidden_time_pairs_constraint snap sv rd =
     concat (map (forbidden_pair_constraints snap sv) (get_default (rd_pairs rd) []))"

text \<open>3. Rule dispatch: the objective terms and the constraints one rule contributes.\<close>

definition rule_terms :: "snapshot \<Rightarrow> key list \<Rightarrow> Rule \<Rightarrow> (var \<times> int) list" where
  "rule_terms snap sv rule =
     (if rul_rule_type rule = ''lunch_window''
      then add_lunch_window_constraint snap sv (rul_rule_data rule)
      else if rul_rule_type rule = ''gap_preference''
      then add_gap_preference_constraint snap sv (rul_rule_data rule)
      else [])"

definition rule_constraints :: "snapshot \<Rightarrow> key list \<Rightarrow> Rule \<Rightarrow> constr list" where
  "rule_constraints snap sv rule =
     (if rul_rule_type rule = ''lunch_window'' then []
      else if rul_rule_type rule = ''gap_preference'' then []
      else if rul_rule_type rule = ''forbidden_time_pairs''
      then add_forbidden_time_pairs_constraint snap sv (rul_rule_data rule)
      else [])"

definition objective_terms :: "snapshot \<Rightarrow> key list \<Rightarrow> (var \<times> int) list" where
  "objective_terms snap sv =
     gap_terms snap sv @ time_preference_terms snap sv
     @ concat (map (rule_terms snap sv) (rules snap))"

definition soft_rule_constraints :: "snapshot \<Rightarrow> key list \<Rightarrow> constr list" where
  "soft_rule_constraints snap sv = concat (map (rule_constraints snap sv) (rules snap))"

text \<open>
  The model after both builders: the constraints added, and the objective, which is set
  only when there is at least one term.
\<close>

record cp_model =
  cm_schedule_vars :: "key list"
  cm_constraints :: "constr list"
  cm_objective :: "(var \<times> int) list option"

definition build_model :: "snapshot \<Rightarrow> py_error + cp_model" where
  "build_model snap =
     (case create_decision_variables snap of
        Inl e \<Rightarrow> Inl e
      | Inr dv \<Rightarrow>
          (case add_hard_constraints snap (schedule_vars dv) of
             Inl e \<Rightarrow> Inl e
           | Inr hard \<Rightarrow>
               Inr \<lparr> cm_schedule_vars = schedule_vars dv,
                     cm_constraints = hard @ soft_rule_constraints snap (schedule_vars dv),
                     cm_objective =
                       (if objective_terms snap (schedule_vars dv) \<noteq> []
                        then Some (objective_terms snap (schedule_vars dv)) else None) \<rparr>))"

subsection \<open>Meaning of a model\<close>

text \<open>
  A solution gives every Boolean variable the value 0 or 1. A constraint holds under a
  solution as the linear (in)equality it is; the objective value is the weighted sum.
\<close>

definition var_value :: "(var \<Rightarrow> bool) \<Rightarrow> var \<Rightarrow> int" where
  "var_value v x = (if v x then 1 else 0)"

fun holds :: "(var \<Rightarrow> bool) \<Rightarrow> constr \<Rightarrow> bool" where
  "holds v (SumEq xs n) = (sum_list (map (var_value v) xs) = n)"
| "holds v (SumLe xs n) = (sum_list (map (var_value v) xs) \<le> n)"
| "holds v (VarEq x n) = (var_value v x = n)"
| "holds v (VarsEq x y) = (var_value v x = var_value v y)"

definition feasible :: "(var \<Rightarrow> bool) \<Rightarrow> constr list \<Rightarrow> bool" where
  "feasible v cs = list_all (holds v) cs"

definition objective_value :: "(var \<Rightarrow> bool) \<Rightarrow> (var \<times> int) list \<Rightarrow> int" where
  "objective_value v terms = sum_list (map (\<lambda>(x, w). var_value v x * w) terms)"

section \<open>Solver driver (TimetableScheduler.solve)\<close>

text \<open>
  CP-SAT is not part of the repository: the search is a parameter, a function from the
  model to a status and a value for every variable. \<open>solve\<close> returns the success flag
  and the statistics. Of the statistics the model keeps \<open>status\<close>, \<open>num_variables\<close>, which
  the source sets to \<open>self.model.Proto().variables\<close> (the container itself, where the next
  entry takes \<open>len\<close> of its container), and \<open>num_constraints\<close>; the remaining entries are
  numbers or \<open>None\<close> read from the solver, which no modelled function reads.
\<close>

datatype solver_status = UNKNOWN | MODEL_INVALID | FEASIBLE | INFEASIBLE | OPTIMAL

fun StatusName :: "solver_status \<Rightarrow> string" where
  "StatusName UNKNOWN = ''UNKNOWN''"
| "StatusName MODEL_INVALID = ''MODEL_INVALID''"
| "StatusName FEASIBLE = ''FEASIBLE''"
| "StatusName INFEASIBLE = ''INFEASIBLE''"
| "StatusName OPTIMAL = ''OPTIMAL''"

record solver_result =
  sr_status :: solver_status
  sr_value :: "var \<Rightarrow> bool"

definition solve :: "(cp_model \<Rightarrow> solver_result) \<Rightarrow> cp_model \<Rightarrow> bool \<times> solver_stats" where
  "solve solver model =
     (let status = sr_status (solver model)
      in (status = OPTIMAL \<or> status = FEASIBLE,
          [(''status'', StatStr (StatusName status)),
           (''num_variables'', StatProtoVariables),
           (''num_constraints'', StatInt (int (length (cm_constraints model))))]))"

text \<open>\<open>solver_stats.get('status', 'Unknown error')\<close>.\<close>

definition stats_status :: "solver_stats \<Rightarrow> string" where
  "stats_status stats =
     (case map_of stats ''status'' of Some (StatStr name) \<Rightarrow> name | _ \<Rightarrow> ''Unknown error'')"

section \<open>Solution materializer (extract_solution, save_solution)\<close>

text \<open>Of the dictionary built per slot, the entries that \<open>save_solution\<close> persists.\<close>

record slot_data =
  sd_assignment_id :: int
  sd_classroom_id :: int
  sd_day_of_week :: int
  sd_start_time :: int
  sd_end_time :: int

fun extract_solution ::
  "snapshot \<Rightarrow> (var \<Rightarrow> bool) \<Rightarrow> key list \<Rightarrow> py_error + slot_data list" where
  "extract_solution snap val [] = Inr []"
| "extract_solution snap val ((aid, cid, day, slot) # rest) =
     (if val (ScheduleVar (aid, cid, day, slot)) then
        (case next_assignment (assignments snap) aid of
           Inl e \<Rightarrow> Inl e
         | Inr assignment \<Rightarrow>
        (case next_classroom (classrooms snap) cid of
           Inl e \<Rightarrow> Inl e
         | Inr classroom \<Rightarrow>
        (case next_course (courses snap) (asg_course_id assignment) of
           Inl e \<Rightarrow> Inl e
         | Inr course \<Rightarrow>
        (case extract_solution snap val rest of
           Inl e \<Rightarrow> Inl e
         | Inr others \<Rightarrow>
             (let start = slot_to_time slot;
                  finish = add_minutes_to_time start (crs_duration_minutes course)
              in Inr (\<lparr> sd_assignment_id = aid, sd_classroom_id = cid, sd_day_of_week = day,
                        sd_start_time = start, sd_end_time = finish \<rparr> # others))))))
      else extract_solution snap val rest)"

text \<open>\<open>query(...).first()\<close> followed by an update of the row found.\<close>

fun update_first :: "('a \<Rightarrow> bool) \<Rightarrow> ('a \<Rightarrow> 'a) \<Rightarrow> 'a list \<Rightarrow> 'a list" where
  "update_first P f [] = []"
| "update_first P f (x # xs) = (if P x then f x # xs else x # update_first P f xs)"

fun new_slot_rows :: "string \<Rightarrow> int \<Rightarrow> int \<Rightarrow> slot_data list \<Rightarrow> ScheduledSlot list" where
  "new_slot_rows department timetable_id next_id [] = []"
| "new_slot_rows department timetable_id next_id (sd # rest) =
     \<lparr> ss_id = next_id, dept_timetable_id = timetable_id,
       assignment_id = sd_assignment_id sd, classroom_id = sd_classroom_id sd,
       day_of_week = sd_day_of_week sd, start_time = sd_start_time sd,
       end_time = sd_end_time sd, ss_department = department, is_global_slot = False \<rparr>
     # new_slot_rows department timetable_id (next_id + 1) rest"

text \<open>
  \<open>save_solution\<close> is one transaction inside a \<open>try\<close>: the timetable's rows are deleted, the
  new ones added, and when the timetable row exists its status is set and
  \<open>json.dumps(self.solver_stats)\<close> is stored; then the commit. An exception rolls the
  transaction back and the function returns \<open>False\<close> with the store as it was. Two
  exceptions are modelled: the TypeError of \<open>json.dumps\<close>, and the commit refused by the
  foreign key of \<open>scheduled_slots.dept_timetable_id\<close> when rows are inserted for a
  timetable that has no row.
\<close>

definition save_solution ::
  "string \<Rightarrow> solver_stats \<Rightarrow> int \<Rightarrow> slot_data list \<Rightarrow> database \<Rightarrow> bool \<times> database" where
  "save_solution department stats timetable_id scheduled_slots db =
     (let staged =
            db \<lparr> db_slots :=
                   filter (\<lambda>s. dept_timetable_id s \<noteq> timetable_id) (db_slots db)
                   @ new_slot_rows department timetable_id (db_next_slot_id db) scheduled_slots,
                 db_next_slot_id := db_next_slot_id db + int (length scheduled_slots) \<rparr>
      in case List.find (\<lambda>t. tt_id t = timetable_id) (db_timetables db) of
           None \<Rightarrow> if scheduled_slots = [] then (True, staged) else (False, db)
         | Some timetable \<Rightarrow>
             (case json_dumps stats of
                Inl e \<Rightarrow> (False, db)
              | Inr text \<Rightarrow>
                  (True,
                   staged \<lparr> db_timetables :=
                     update_first (\<lambda>t. tt_id t = timetable_id)
                       (\<lambda>t. t \<lparr> tt_status := ''completed'', tt_solver_stats := Some text \<rparr>)
                       (db_timetables db) \<rparr>)))"

section \<open>Generation (generate_timetable)\<close>

datatype message =
    GeneratedSuccessfully nat
  | SolutionNotSaved
  | FailedToGenerate string
  | GenerationFailed py_error

definition set_generating :: "int \<Rightarrow> database \<Rightarrow> database" where
  "set_generating timetable_id db =
     db \<lparr> db_timetables :=
            update_first (\<lambda>t. tt_id t = timetable_id)
              (\<lambda>t. t \<lparr> tt_status := ''generating'' \<rparr>) (db_timetables db) \<rparr>"

definition set_failed ::
  "int \<Rightarrow> generation_log \<Rightarrow> solver_stats option \<Rightarrow> database \<Rightarrow> database" where
  "set_failed timetable_id log stats db =
     db \<lparr> db_timetables :=
            update_first (\<lambda>t. tt_id t = timetable_id)
              (\<lambda>t. (case stats of
                      None \<Rightarrow> t \<lparr> tt_status := ''failed'', tt_generation_log := Some log \<rparr>
                    | Some st \<Rightarrow> t \<lparr> tt_status := ''failed'', tt_generation_log := Some log,
                                     tt_solver_stats := Some st \<rparr>))
              (db_timetables db) \<rparr>"

text \<open>
  The solver-failure branch: when the timetable row exists, the status and the log are
  set and \<open>json.dumps(solver_stats)\<close> is stored before the commit; its TypeError leaves
  the session uncommitted and goes on to the outer handler.
\<close>

definition record_solver_failure ::
  "int \<Rightarrow> solver_stats \<Rightarrow> database \<Rightarrow> py_error + database" where
  "record_solver_failure timetable_id stats db =
     (case List.find (\<lambda>t. tt_id t = timetable_id) (db_timetables db) of
        None \<Rightarrow> Inr db
      | Some timetable \<Rightarrow>
          (case json_dumps stats of
             Inl e \<Rightarrow> Inl e
           | Inr text \<Rightarrow>
               Inr (set_failed timetable_id (SolverFailed (stats_status stats)) (Some text) db)))"

text \<open>
  The body of the \<open>try\<close> after the status update: load, build, solve, then extract and
  save, or record the failure. An exception leaves through \<open>Inl\<close>.
\<close>

definition run_generation ::
  "(cp_model \<Rightarrow> solver_result) \<Rightarrow> string \<Rightarrow> int \<Rightarrow> int \<Rightarrow> database
     \<Rightarrow> py_error + (bool \<times> message \<times> solver_stats \<times> database)" where
  "run_generation solver department user_id timetable_id db =
     (let snap = load_data db department user_id
      in case build_model snap of
           Inl e \<Rightarrow> Inl e
         | Inr model \<Rightarrow>
             (let (success, stats) = solve solver model
              in if success then
                   (case extract_solution snap (sr_value (solver model)) (cm_schedule_vars model) of
                      Inl e \<Rightarrow> Inl e
                    | Inr scheduled_slots \<Rightarrow>
                        (let (save_success, db') =
                               save_solution department stats timetable_id scheduled_slots db
                         in if save_success
                            then Inr (True, GeneratedSuccessfully (length scheduled_slots),
                                      stats, db')
                            else Inr (False, SolutionNotSaved, stats, db')))
                 else
                   (case record_solver_failure timetable_id stats db of
                      Inl e \<Rightarrow> Inl e
                    | Inr db' \<Rightarrow>
                        Inr (False, FailedToGenerate (stats_status stats), stats, db'))))"

text \<open>
  \<open>generate_timetable\<close>: the status is set to \<open>generating\<close> and committed, then the body
  runs; the outer handler sets the status to \<open>failed\<close> with the exception as the log and
  returns the empty dictionary as statistics.
\<close>

definition generate_timetable ::
  "(cp_model \<Rightarrow> solver_result) \<Rightarrow> string \<Rightarrow> int \<Rightarrow> int \<Rightarrow> database
     \<Rightarrow> bool \<times> message \<times> solver_stats \<times> database" where
  "generate_timetable solver department user_id timetable_id db =
     (let db1 = set_generating timetable_id db
      in case run_generation solver department user_id timetable_id db1 of
           Inr result \<Rightarrow> result
         | Inl e \<Rightarrow>
             (False, GenerationFailed e, [],
              set_failed timetable_id (GenerationError e) None db1))"

section \<open>Validation gate (validate_scheduling_data)\<close>

definition validate_scheduling_data :: "database \<Rightarrow> string \<Rightarrow> int \<Rightarrow> bool \<times> string list" where
  "validate_scheduling_data db department user_id =
     (let errors =
        (if filter (\<lambda>a. asg_department a = department \<and> asg_user_id a = user_id)
              (db_assignments db) = []
         then [''No assignments found for scheduling''] else [])
        @ (if filter (\<lambda>t. tch_department t = department \<and> tch_user_id t = user_id)
                (db_teachers db) = []
           then [''No teachers found for scheduling''] else [])
        @ (if filter (\<lambda>c. cls_department c = department \<and> cls_user_id c = user_id)
                (db_classrooms db) = []
           then [''No classrooms found for scheduling''] else [])
        @ (if filter (\<lambda>c. crs_department c = department \<and> crs_user_id c = user_id)
                (db_courses db) = []
           then [''No courses found for scheduling''] else [])
      in (errors = [], errors))"

section \<open>Rule input (schemas.RuleCreate, routes/dept.py create_rules_step6)\<close>

text \<open>
  \<open>RuleCreate\<close> constrains the length of \<open>name\<close> and the pattern of \<open>rule_type\<close>;
  \<open>rule_data\<close> is any dictionary. The validator collects the errors of all fields.
\<close>

record RuleCreate =
  rc_name :: string
  rc_rule_type :: string
  rc_rule_data :: rule_data

datatype validation_error = StringTooShort | StringTooLong | StringPatternMismatch

definition rule_type_pattern :: "string list" where
  "rule_type_pattern =
     [''lunch_window'', ''max_lectures_per_day'', ''gap_preference'', ''forbidden_time_pairs'']"

definition validate_RuleCreate :: "RuleCreate \<Rightarrow> validation_error list" where
  "validate_RuleCreate rc =
     (if length (rc_name rc) < 2 then [StringTooShort]
      else if length (rc_name rc) > 100 then [StringTooLong] else [])
     @ (if rc_rule_type rc \<in> set rule_type_pattern then [] else [StringPatternMismatch])"

text \<open>
  The route: a request with a validation error is answered 400 and stores nothing;
  otherwise each rule whose name is new for the (department, owner) is inserted.
\<close>

fun store_rules :: "string \<Rightarrow> int \<Rightarrow> RuleCreate list \<Rightarrow> database \<Rightarrow> database" where
  "store_rules department user_id [] db = db"
| "store_rules department user_id (rc # rest) db =
     (if List.find (\<lambda>r. rul_name r = rc_name rc \<and> rul_department r = department
                          \<and> rul_user_id r = user_id) (db_rules db) \<noteq> None
      then store_rules department user_id rest db
      else store_rules department user_id rest
             (db \<lparr> db_rules := db_rules db @
                     [\<lparr> rul_id = db_next_rule_id db, rul_name = rc_name rc,
                        rul_rule_type = rc_rule_type rc, rul_rule_data = rc_rule_data rc,
                        rul_department = department, rul_user_id = user_id \<rparr>],
                   db_next_rule_id := db_next_rule_id db + 1 \<rparr>))"

definition create_rules_step6 ::
  "string \<Rightarrow> int \<Rightarrow> RuleCreate list \<Rightarrow> database \<Rightarrow> nat \<times> database" where
  "create_rules_step6 department user_id rules_request db =
     (if concat (map validate_RuleCreate rules_request) \<noteq> [] then (400, db)
      else (201, store_rules department user_id rules_request db))"

section \<open>Global coordinator (global_scheduler.py)\<close>

text \<open>
  The three dictionaries of \<open>GlobalScheduler\<close>, as association lists in insertion order:
  storing under a present key replaces its value in place, a new key goes to the end
  (\<open>AList.update\<close>); \<open>del\<close> is \<open>AList.delete\<close>.
\<close>

type_synonym cell = "int \<times> int \<times> int"

record shared_resource =
  res_room_id :: string
  res_room_type :: RoomType
  res_capacity :: int
  res_departments :: "string list"

record GlobalScheduler =
  global_slots :: "(cell \<times> string) list"
  department_timetables :: "(string \<times> DeptTimetable list) list"
  shared_resources :: "(int \<times> shared_resource) list"

definition GlobalScheduler_init :: GlobalScheduler where
  "GlobalScheduler_init =
     \<lparr> global_slots = [], department_timetables = [], shared_resources = [] \<rparr>"

definition slot_key :: "ScheduledSlot \<Rightarrow> cell" where
  "slot_key slot = (classroom_id slot, day_of_week slot, time_to_slot (start_time slot))"

definition register_timetable ::
  "DeptTimetable \<Rightarrow> (string \<times> DeptTimetable list) list \<Rightarrow> (string \<times> DeptTimetable list) list" where
  "register_timetable timetable reg =
     (let reg' = (if map_of reg (tt_department timetable) = None
                  then AList.update (tt_department timetable) [] reg else reg)
      in AList.update (tt_department timetable)
           (get_default (map_of reg' (tt_department timetable)) [] @ [timetable]) reg')"

definition load_global_state :: "database \<Rightarrow> GlobalScheduler \<Rightarrow> GlobalScheduler" where
  "load_global_state db gs =
     \<lparr> global_slots =
         fold (\<lambda>slot g. AList.update (slot_key slot) (ss_department slot) g)
           (filter is_global_slot (db_slots db)) (global_slots gs),
       department_timetables =
         fold register_timetable
           (filter (\<lambda>t. tt_status t = ''completed'') (db_timetables db))
           (department_timetables gs),
       shared_resources =
         fold (\<lambda>classroom r.
                 AList.update (cls_id classroom)
                   \<lparr> res_room_id = cls_room_id classroom,
                     res_room_type = cls_room_type classroom,
                     res_capacity = cls_capacity classroom, res_departments = [] \<rparr> r)
           (filter (\<lambda>c. cls_department c = ''Shared'') (db_classrooms db))
           (shared_resources gs) \<rparr>"

text \<open>A conflict record, without the strings looked up for display.\<close>

record conflict =
  cf_slot_id :: int
  cf_classroom_id :: int
  cf_day_of_week :: int
  cf_requesting_department :: string
  cf_occupying_department :: string

definition check_resource_conflicts ::
  "string \<Rightarrow> int \<Rightarrow> database \<Rightarrow> GlobalScheduler \<Rightarrow> bool \<times> conflict list" where
  "check_resource_conflicts department timetable_id db gs =
     (let conflicts =
        concat (map (\<lambda>slot.
          (case map_of (global_slots gs) (slot_key slot) of
             None \<Rightarrow> []
           | Some occupying_dept \<Rightarrow>
               if occupying_dept \<noteq> department
               then [\<lparr> cf_slot_id = ss_id slot, cf_classroom_id = classroom_id slot,
                       cf_day_of_week = day_of_week slot,
                       cf_requesting_department = department,
                       cf_occupying_department = occupying_dept \<rparr>]
               else []))
          (filter (\<lambda>s. dept_timetable_id s = timetable_id) (db_slots db)))
      in (conflicts = [], conflicts))"

text \<open>
  \<open>reserve_global_slots\<close>: the bulk update, then the rows read back, then the index. A
  failing transaction is outside the model, so the result is \<open>True\<close>.
\<close>

definition reserve_global_slots ::
  "string \<Rightarrow> int \<Rightarrow> int list \<Rightarrow> database \<times> GlobalScheduler
     \<Rightarrow> bool \<times> database \<times> GlobalScheduler" where
  "reserve_global_slots department timetable_id slot_ids st =
     (let db = fst st; gs = snd st;
          db' = db \<lparr> db_slots :=
                  map (\<lambda>s. if dept_timetable_id s = timetable_id \<and> ss_id s \<in> set slot_ids
                            then s \<lparr> is_global_slot := True \<rparr> else s) (db_slots db) \<rparr>;
          reserved_slots =
            filter (\<lambda>s. dept_timetable_id s = timetable_id \<and> ss_id s \<in> set slot_ids
                         \<and> is_global_slot s) (db_slots db')
      in (True, db',
          gs \<lparr> global_slots :=
                 fold (\<lambda>slot g. AList.update (slot_key slot) department g)
                   reserved_slots (global_slots gs) \<rparr>))"

definition release_global_slots ::
  "string \<Rightarrow> int \<Rightarrow> database \<times> GlobalScheduler \<Rightarrow> bool \<times> database \<times> GlobalScheduler" where
  "release_global_slots department timetable_id st =
     (let db = fst st; gs = snd st;
          slots_to_release =
            filter (\<lambda>s. dept_timetable_id s = timetable_id \<and> is_global_slot s) (db_slots db);
          db' = db \<lparr> db_slots :=
                  map (\<lambda>s. if dept_timetable_id s = timetable_id \<and> is_global_slot s
                            then s \<lparr> is_global_slot := False \<rparr> else s) (db_slots db) \<rparr>
      in (True, db',
          gs \<lparr> global_slots :=
                 fold (\<lambda>slot g. if map_of g (slot_key slot) = Some department
                                 then AList.delete (slot_key slot) g else g)
                   slots_to_release (global_slots gs) \<rparr>))"

text \<open>
  \<open>_attempt_reschedule\<close>: the first (day, slot) in the order of the two loops where the
  teacher's matrix is true and the index has no entry for the slot's classroom. The new
  row ends at \<open>_slot_to_time(time_slot + 1)\<close>.
\<close>

definition reschedule_candidates ::
  "ScheduledSlot \<Rightarrow> Teacher \<Rightarrow> bool list list \<Rightarrow> GlobalScheduler \<Rightarrow> (int \<times> int) list" where
  "reschedule_candidates slot teacher availability gs =
     [(day, time_slot).
        day \<leftarrow> py_range 5,
        day \<notin> set (get_default (tch_days_off teacher) []),
        day < int (length availability),
        time_slot \<leftarrow> py_range (int (length (availability ! nat day))),
        availability ! nat day ! nat time_slot,
        map_of (global_slots gs) (classroom_id slot, day, time_slot) = None]"

definition attempt_reschedule ::
  "ScheduledSlot \<Rightarrow> database \<Rightarrow> GlobalScheduler \<Rightarrow> ScheduledSlot option \<times> database" where
  "attempt_reschedule slot db gs =
     (case List.find (\<lambda>a. asg_id a = assignment_id slot) (db_assignments db) of
        None \<Rightarrow> (None, db)
      | Some assignment \<Rightarrow>
     (case List.find (\<lambda>t. tch_id t = asg_teacher_id assignment) (db_teachers db) of
        None \<Rightarrow> (None, db)
      | Some teacher \<Rightarrow>
     (case tch_availability teacher of
        None \<Rightarrow> (None, db)
      | Some availability \<Rightarrow>
     (case reschedule_candidates slot teacher availability gs of
        [] \<Rightarrow> (None, db)
      | (day, time_slot) # _ \<Rightarrow>
          (let new_slot =
                 \<lparr> ss_id = db_next_slot_id db, dept_timetable_id = dept_timetable_id slot,
                   assignment_id = assignment_id slot, classroom_id = classroom_id slot,
                   day_of_week = day, start_time = slot_to_time time_slot,
                   end_time = slot_to_time (time_slot + 1),
                   ss_department = ss_department slot,
                   is_global_slot = is_global_slot slot \<rparr>
           in (Some new_slot,
               db \<lparr> db_slots := filter (\<lambda>s. ss_id s \<noteq> ss_id slot) (db_slots db) @ [new_slot],
                    db_next_slot_id := db_next_slot_id db + 1 \<rparr>))))))"

text \<open>\<open>validate_global_consistency\<close>; an error message is kept as its kind and its count.\<close>

datatype consistency_error = OrphanedInMemory nat | OrphanedInDatabase nat | DoubleBooked nat

definition validate_global_consistency ::
  "database \<Rightarrow> GlobalScheduler \<Rightarrow> bool \<times> consistency_error list" where
  "validate_global_consistency db gs =
     (let global_slots_in_db = filter is_global_slot (db_slots db);
          db_slot_keys = set (map slot_key global_slots_in_db);
          memory_slot_keys = set (map fst (global_slots gs));
          orphaned_in_memory = memory_slot_keys - db_slot_keys;
          orphaned_in_db = db_slot_keys - memory_slot_keys;
          counted_keys = fold (\<lambda>k ks. dict_add ks k) (map slot_key global_slots_in_db) [];
          double_booked =
            filter (\<lambda>k. count_list (map slot_key global_slots_in_db) k > 1) counted_keys;
          errors =
            (if orphaned_in_memory \<noteq> {} then [OrphanedInMemory (card orphaned_in_memory)]
             else [])
            @ (if orphaned_in_db \<noteq> {} then [OrphanedInDatabase (card orphaned_in_db)] else [])
            @ (if double_booked \<noteq> [] then [DoubleBooked (length double_booked)] else [])
      in (errors = [], errors))"

text \<open>A finite sequence of reserve and release calls, run from left to right.\<close>

datatype coordinator_op =
    Reserve string int "int list"
  | Release string int

fun op_department :: "coordinator_op \<Rightarrow> string" where
  "op_department (Reserve d t ids) = d"
| "op_department (Release d t) = d"

fun op_timetable :: "coordinator_op \<Rightarrow> int" where
  "op_timetable (Reserve d t ids) = t"
| "op_timetable (Release d t) = t"

fun apply_op :: "coordinator_op \<Rightarrow> database \<times> GlobalScheduler \<Rightarrow> database \<times> GlobalScheduler" where
  "apply_op (Reserve d t ids) st = snd (reserve_global_slots d t ids st)"
| "apply_op (Release d t) st = snd (release_global_slots d t st)"

definition run_ops ::
  "coordinator_op list \<Rightarrow> database \<times> GlobalScheduler \<Rightarrow> database \<times> GlobalScheduler" where
  "run_ops ops st = fold apply_op ops st"

section \<open>Teacher gaps as the specification words them\<close>

text \<open>
  Written from O3 of the specification: a teacher is busy at (day, slot) when one of the
  teacher's schedule variables there is 1; a gap is a (teacher, day, slot) with
  \<open>slot \<le> S - 3\<close> where the teacher is busy at slot and slot + 2 and idle at slot + 1.
\<close>

definition spec_teacher_busy ::
  "snapshot \<Rightarrow> key list \<Rightarrow> (var \<Rightarrow> bool) \<Rightarrow> int \<Rightarrow> int \<Rightarrow> int \<Rightarrow> bool" where
  "spec_teacher_busy snap sv val teacher_id day slot =
     list_ex val (teacher_cell_vars snap sv teacher_id day slot)"

definition spec_gap_count :: "snapshot \<Rightarrow> key list \<Rightarrow> (var \<Rightarrow> bool) \<Rightarrow> nat" where
  "spec_gap_count snap sv val =
     length [(td_id teacher, day, slot).
               teacher \<leftarrow> teachers snap, day \<leftarrow> py_range num_days,
               slot \<leftarrow> py_range (num_slots_per_day - 2),
               spec_teacher_busy snap sv val (td_id teacher) day slot
               \<and> spec_teacher_busy snap sv val (td_id teacher) day (slot + 2)
               \<and> \<not> spec_teacher_busy snap sv val (td_id teacher) day (slot + 1)]"

section \<open>Variables of a constraint\<close>

text \<open>
  The variables a constraint mentions, and an answer with every gap indicator put to 0;
  both serve to state that no constraint of the model ties a gap indicator to the
  schedule.
\<close>

fun is_schedule_var :: "var \<Rightarrow> bool" where
  "is_schedule_var (ScheduleVar k) = True"
| "is_schedule_var (TeacherVar t d s) = False"
| "is_schedule_var (RoomVar r d s) = False"
| "is_schedule_var (GapVar t d s) = False"

fun constr_vars :: "constr \<Rightarrow> var list" where
  "constr_vars (SumEq xs n) = xs"
| "constr_vars (SumLe xs n) = xs"
| "constr_vars (VarEq x n) = [x]"
| "constr_vars (VarsEq x y) = [x, y]"

definition clear_gaps :: "(var \<Rightarrow> bool) \<Rightarrow> var \<Rightarrow> bool" where
  "clear_gaps val x = (case x of GapVar t d s \<Rightarrow> False | _ \<Rightarrow> val x)"

definition only_schedule_vars :: "constr list \<Rightarrow> bool" where
  "only_schedule_vars cs = (\<forall>c \<in> set cs. \<forall>x \<in> set (constr_vars c). is_schedule_var x)"

section \<open>Consistency of the coordinator and admissible calls\<close>

text \<open>
  The state is consistent when validation returns ok with no error and the index has
  exactly one entry for the cell of every global row, mapping it to the row's
  department.
\<close>

definition coordinator_consistent :: "database \<times> GlobalScheduler \<Rightarrow> bool" where
  "coordinator_consistent st =
     (validate_global_consistency (fst st) (snd st) = (True, [])
      \<and> list_all (\<lambda>s. is_global_slot s \<longrightarrow>
            filter (\<lambda>e. fst e = slot_key s) (global_slots (snd st))
              = [(slot_key s, ss_department s)])
          (db_slots (fst st)))"

text \<open>
  A reserve call is admissible in a state when every row it names belongs to the
  calling department and the rows it names together with the global rows lie on
  pairwise different cells; a release call is admissible when every global row of the
  timetable it names belongs to the calling department.
\<close>

fun op_admissible :: "coordinator_op \<Rightarrow> database \<times> GlobalScheduler \<Rightarrow> bool" where
  "op_admissible (Reserve d t ids) st =
     (list_all (\<lambda>s. dept_timetable_id s = t \<and> ss_id s \<in> set ids \<longrightarrow> ss_department s = d)
        (db_slots (fst st))
      \<and> distinct (map slot_key
           (filter (\<lambda>s. (dept_timetable_id s = t \<and> ss_id s \<in> set ids) \<or> is_global_slot s)
              (db_slots (fst st)))))"
| "op_admissible (Release d t) st =
     list_all (\<lambda>s. dept_timetable_id s = t \<and> is_global_slot s \<longrightarrow> ss_department s = d)
       (db_slots (fst st))"

fun admissible_run :: "coordinator_op list \<Rightarrow> database \<times> GlobalScheduler \<Rightarrow> bool" where
  "admissible_run [] st = True"
| "admissible_run (op # ops) st = (op_admissible op st \<and> admissible_run ops (apply_op op st))"

fun consistent_after_each ::
  "coordinator_op list \<Rightarrow> database \<times> GlobalScheduler \<Rightarrow> bool" where
  "consistent_after_each [] st = True"
| "consistent_after_each (op # ops) st =
     (coordinator_consistent (apply_op op st) \<and> consistent_after_each ops (apply_op op st))"

text \<open>
  The same consistency in terms of the index as a map: the global rows lie on pairwise
  different cells, the index has one entry per key, its keys are the cells of the global
  rows, and the cell of every global row is mapped to the row's department.
\<close>

definition store_index_agree :: "database \<Rightarrow> GlobalScheduler \<Rightarrow> bool" where
  "store_index_agree db gs =
     (distinct (map slot_key (filter is_global_slot (db_slots db)))
      \<and> distinct (map fst (global_slots gs))
      \<and> dom (map_of (global_slots gs)) = slot_key ` {s \<in> set (db_slots db). is_global_slot s}
      \<and> (\<forall>s \<in> set (db_slots db). is_global_slot s \<longrightarrow>
            map_of (global_slots gs) (slot_key s) = Some (ss_department s)))"

section \<open>Concrete inputs\<close>

text \<open>
  A department \<open>CS\<close> of owner 1 with one assignment, one teacher, one course and one
  lecture room; the course and the teacher vary with the scenario.
\<close>

definition ex_assignment :: Assignment where
  "ex_assignment =
     \<lparr> asg_id = 1, asg_course_id = 1, asg_section_id = 1, asg_teacher_id = 1,
       asg_group_id = None, asg_department = ''CS'', asg_user_id = 1 \<rparr>"

definition ex_classroom :: Classroom where
  "ex_classroom =
     \<lparr> cls_id = 1, cls_room_id = ''R1'', cls_room_type = LECTURE, cls_capacity = 30,
       cls_department = ''CS'', cls_user_id = 1 \<rparr>"

definition ex_course :: "RoomType \<Rightarrow> int \<Rightarrow> int \<Rightarrow> Course" where
  "ex_course room_type sessions duration =
     \<lparr> crs_id = 1, crs_duration_minutes = duration, crs_sessions_per_week = sessions,
       crs_room_type = room_type, crs_department = ''CS'', crs_user_id = 1 \<rparr>"

definition ex_teacher :: "bool list list option \<Rightarrow> int list option \<Rightarrow> Teacher" where
  "ex_teacher availability days_off =
     \<lparr> tch_id = 1, tch_max_hours_per_day = 8, tch_availability = availability,
       tch_days_off = days_off, tch_department = ''CS'', tch_user_id = 1 \<rparr>"

definition ex_timetable :: "string \<Rightarrow> DeptTimetable" where
  "ex_timetable status =
     \<lparr> tt_id = 1, tt_department = ''CS'', tt_user_id = 1, tt_status = status,
       tt_generation_log = None, tt_solver_stats = None \<rparr>"

definition ex_db :: "Course \<Rightarrow> Teacher \<Rightarrow> string \<Rightarrow> database" where
  "ex_db course teacher status =
     \<lparr> db_assignments = [ex_assignment], db_teachers = [teacher], db_courses = [course],
       db_classrooms = [ex_classroom], db_rules = [], db_timetables = [ex_timetable status],
       db_slots = [], db_next_slot_id = 1, db_next_timetable_id = 2, db_next_rule_id = 1 \<rparr>"

text \<open>
  A solver answer: status \<open>OPTIMAL\<close> with exactly the listed schedule variables at 1 and
  every other variable at 0.
\<close>

definition ex_value :: "key list \<Rightarrow> var \<Rightarrow> bool" where
  "ex_value ks x = (case x of ScheduleVar k \<Rightarrow> k \<in> set ks | _ \<Rightarrow> False)"

definition ex_solver :: "key list \<Rightarrow> cp_model \<Rightarrow> solver_result" where
  "ex_solver ks model = \<lparr> sr_status = OPTIMAL, sr_value = ex_value ks \<rparr>"

definition ex_snapshot :: "Course \<Rightarrow> Teacher \<Rightarrow> snapshot" where
  "ex_snapshot course teacher = load_data (ex_db course teacher ''draft'') ''CS'' 1"

text \<open>
  A row of timetable 1 for the assignment in room 1 on Monday at 08:00, ending after the
  given duration, and the store holding it; a matrix that makes a teacher available in
  every slot of the grid.
\<close>

definition ex_slot :: "int \<Rightarrow> bool \<Rightarrow> ScheduledSlot" where
  "ex_slot duration is_global =
     \<lparr> ss_id = 1, dept_timetable_id = 1, assignment_id = 1, classroom_id = 1,
       day_of_week = 0, start_time = 480, end_time = 480 + duration,
       ss_department = ''CS'', is_global_slot = is_global \<rparr>"

definition ex_db_with_slot :: "Course \<Rightarrow> Teacher \<Rightarrow> ScheduledSlot \<Rightarrow> database" where
  "ex_db_with_slot course teacher slot =
     (ex_db course teacher ''completed'') \<lparr> db_slots := [slot], db_next_slot_id := 2 \<rparr>"

definition always_available :: "bool list list" where
  "always_available = replicate 5 (replicate 10 True)"

text \<open>A lunch-window rule as submitted, with \<open>start_slot = 6\<close> above \<open>end_slot = 4\<close>.\<close>

definition ex_rc :: RuleCreate where
  "ex_rc =
     \<lparr> rc_name = ''lunch'', rc_rule_type = ''lunch_window'',
       rc_rule_data = \<lparr> rd_start_slot = Some 6, rd_end_slot = Some 4, rd_penalty = None,
                        rd_pairs = None \<rparr> \<rparr>"

text \<open>
  An answer with the two sessions of a course on Monday at slots 1 and 3 and the gap
  indicator of teacher 1 at (Monday, slot 1) at 1.
\<close>

definition ex_gap_value :: "var \<Rightarrow> bool" where
  "ex_gap_value x = (x = GapVar 1 0 1 \<or> ex_value [(1, 1, 0, 1), (1, 1, 0, 3)] x)"

section \<open>Decision variables and extracted slots\<close>

lemma set_fold_dict_add: "set (fold (\<lambda>k ks. dict_add ks k) xs acc) = set xs \<union> set acc"
  by (induction xs arbitrary: acc) (auto simp: dict_add_def)

lemma grid_keys_ids: "k \<in> set (grid_keys aid cid) \<Longrightarrow> fst k = aid \<and> fst (snd k) = cid"
  by (auto simp: grid_keys_def)

lemma vars_of_classrooms_origin:
  "vars_of_classrooms cs a rooms acc = Inr sv \<Longrightarrow> k \<in> set sv \<Longrightarrow>
     k \<in> set acc \<or>
     (\<exists>room \<in> set rooms. \<exists>course. next_course cs (asg_course_id a) = Inr course
        \<and> is_room_compatible (crs_room_type course) (cls_room_type room)
        \<and> fst k = asg_id a \<and> fst (snd k) = cls_id room)"
proof (induction rooms arbitrary: acc)
  case Nil
  then show ?case by simp
next
  case (Cons room rest)
  from Cons.prems(1) obtain course where c: "next_course cs (asg_course_id a) = Inr course"
    by (auto split: sum.splits)
  let ?acc' = "if is_room_compatible (crs_room_type course) (cls_room_type room)
             then fold (\<lambda>k ks. dict_add ks k) (grid_keys (asg_id a) (cls_id room)) acc
             else acc"
  from Cons.prems(1) c have "vars_of_classrooms cs a rest ?acc' = Inr sv" by simp
  from Cons.IH[OF this Cons.prems(2)] show ?case
  proof
    assume "k \<in> set ?acc'"
    then show ?thesis using c
      by (auto simp: set_fold_dict_add dest: grid_keys_ids split: if_splits)
  next
    assume "\<exists>room\<in>set rest. \<exists>course. next_course cs (asg_course_id a) = Inr course
        \<and> is_room_compatible (crs_room_type course) (cls_room_type room)
        \<and> fst k = asg_id a \<and> fst (snd k) = cls_id room"
    then show ?thesis by auto
  qed
qed

lemma vars_of_assignments_origin:
  "vars_of_assignments cs rooms as acc = Inr sv \<Longrightarrow> k \<in> set sv \<Longrightarrow>
     k \<in> set acc \<or>
     (\<exists>a \<in> set as. \<exists>room \<in> set rooms. \<exists>course. next_course cs (asg_course_id a) = Inr course
        \<and> is_room_compatible (crs_room_type course) (cls_room_type room)
        \<and> fst k = asg_id a \<and> fst (snd k) = cls_id room)"
proof (induction as arbitrary: acc)
  case Nil
  then show ?case by simp
next
  case (Cons a rest)
  from Cons.prems(1) obtain acc' where a: "vars_of_classrooms cs a rooms acc = Inr acc'"
    and r: "vars_of_assignments cs rooms rest acc' = Inr sv"
    by (auto split: sum.splits)
  from Cons.IH[OF r Cons.prems(2)] show ?case
  proof
    assume "k \<in> set acc'"
    from vars_of_classrooms_origin[OF a this] show ?thesis by auto
  next
    assume "\<exists>a\<in>set rest. \<exists>room\<in>set rooms. \<exists>course. next_course cs (asg_course_id a) = Inr course
        \<and> is_room_compatible (crs_room_type course) (cls_room_type room)
        \<and> fst k = asg_id a \<and> fst (snd k) = cls_id room"
    then show ?thesis by auto
  qed
qed

lemma extract_solution_origin:
  "extract_solution snap val sv = Inr slots \<Longrightarrow> sd \<in> set slots \<Longrightarrow>
     \<exists>day slot a course.
       (sd_assignment_id sd, sd_classroom_id sd, day, slot) \<in> set sv
       \<and> val (ScheduleVar (sd_assignment_id sd, sd_classroom_id sd, day, slot))
       \<and> sd_day_of_week sd = day \<and> sd_start_time sd = slot_to_time slot
       \<and> next_assignment (assignments snap) (sd_assignment_id sd) = Inr a
       \<and> next_course (courses snap) (asg_course_id a) = Inr course
       \<and> sd_end_time sd = add_minutes_to_time (slot_to_time slot) (crs_duration_minutes course)"
proof (induction snap val sv arbitrary: slots rule: extract_solution.induct)
  case (1 snap val)
  then show ?case by simp
next
  case (2 snap val aid cid day slot rest)
  show ?case
  proof (cases "val (ScheduleVar (aid, cid, day, slot))")
    case False
    with 2 show ?thesis by auto
  next
    case True
    with "2.prems"(1) obtain a room course others where
      a: "next_assignment (assignments snap) aid = Inr a"
      and r: "next_classroom (classrooms snap) cid = Inr room"
      and c: "next_course (courses snap) (asg_course_id a) = Inr course"
      and o: "extract_solution snap val rest = Inr others"
      and s: "slots = \<lparr> sd_assignment_id = aid, sd_classroom_id = cid, sd_day_of_week = day,
                        sd_start_time = slot_to_time slot,
                        sd_end_time = add_minutes_to_time (slot_to_time slot) (crs_duration_minutes course) \<rparr> # others"
      by (auto split: sum.splits simp: Let_def)
    from "2.prems"(2) s consider "sd = \<lparr> sd_assignment_id = aid, sd_classroom_id = cid, sd_day_of_week = day,
                        sd_start_time = slot_to_time slot,
                        sd_end_time = add_minutes_to_time (slot_to_time slot) (crs_duration_minutes course) \<rparr>" | "sd \<in> set others" by auto
    then show ?thesis
    proof cases
      case 1
      then show ?thesis using True a c by auto
    next
      case 2
      from "2.IH"(1)[OF True a r c o 2] obtain d' s' a' c' where
        "(sd_assignment_id sd, sd_classroom_id sd, d', s') \<in> set rest
       \<and> val (ScheduleVar (sd_assignment_id sd, sd_classroom_id sd, d', s'))
       \<and> sd_day_of_week sd = d' \<and> sd_start_time sd = slot_to_time s'
       \<and> next_assignment (assignments snap) (sd_assignment_id sd) = Inr a'
       \<and> next_course (courses snap) (asg_course_id a') = Inr c'
       \<and> sd_end_time sd = add_minutes_to_time (slot_to_time s') (crs_duration_minutes c')"
        by blast
      then show ?thesis by (intro exI[of _ d'] exI[of _ s'] exI[of _ a'] exI[of _ c']) auto
    qed
  qed
qed

lemma find_distinct_id:
  "distinct (map f xs) \<Longrightarrow> x \<in> set xs \<Longrightarrow> List.find (\<lambda>y. f y = f x) xs = Some x"
  by (induction xs) (auto simp: image_iff)

section \<open>Room-type compatibility of every scheduled slot\<close>

text \<open>
  Claim C7. The compatibility predicate of the source is the table of section 3 of the
  specification, for all sixteen pairs of room types; and when the identities of the
  snapshot's assignments and classrooms are unique, every slot extracted from a solver
  answer pairs a classroom whose room type is acceptable for the room type of the
  course of the slot's assignment.
\<close>

theorem room_compatibility:
  assumes "distinct (map asg_id (assignments snap))"
    and "distinct (map cls_id (classrooms snap))"
    and "create_decision_variables snap = Inr dv"
    and "extract_solution snap val (schedule_vars dv) = Inr slots"
  shows "(\<forall>c r. is_room_compatible c r = (r \<in> spec_acceptable_room_types c))
     \<and> (\<forall>sd \<in> set slots. \<exists>a room course.
           next_assignment (assignments snap) (sd_assignment_id sd) = Inr a
         \<and> next_classroom (classrooms snap) (sd_classroom_id sd) = Inr room
         \<and> next_course (courses snap) (asg_course_id a) = Inr course
         \<and> cls_room_type room \<in> spec_acceptable_room_types (crs_room_type course))"
proof (intro conjI allI ballI)
  fix c r
  show "is_room_compatible c r = (r \<in> spec_acceptable_room_types c)"
    by (cases c; cases r) (simp_all add: is_room_compatible_def)
next
  fix sd assume sd: "sd \<in> set slots"
  have table: "\<And>c r. is_room_compatible c r = (r \<in> spec_acceptable_room_types c)"
    by (case_tac c; case_tac r) (simp_all add: is_room_compatible_def)
  from assms(3) have sv: "vars_of_assignments (courses snap) (classrooms snap) (assignments snap) []
      = Inr (schedule_vars dv)"
    by (auto simp: create_decision_variables_def split: sum.splits)
  from extract_solution_origin[OF assms(4) sd] obtain day slot a course where
    k: "(sd_assignment_id sd, sd_classroom_id sd, day, slot) \<in> set (schedule_vars dv)"
    and a: "next_assignment (assignments snap) (sd_assignment_id sd) = Inr a"
    and c: "next_course (courses snap) (asg_course_id a) = Inr course"
    by blast
  from vars_of_assignments_origin[OF sv k] obtain a' room' course' where
    a': "a' \<in> set (assignments snap)" and r': "room' \<in> set (classrooms snap)"
    and c': "next_course (courses snap) (asg_course_id a') = Inr course'"
    and comp: "is_room_compatible (crs_room_type course') (cls_room_type room')"
    and ida: "asg_id a' = sd_assignment_id sd" and idr: "cls_id room' = sd_classroom_id sd"
    by auto
  from find_distinct_id[OF assms(1) a'] ida a have "a = a'"
    by (simp add: next_assignment_def)
  with c c' have "course = course'" by simp
  from find_distinct_id[OF assms(2) r'] idr
  have "next_classroom (classrooms snap) (sd_classroom_id sd) = Inr room'"
    by (simp add: next_classroom_def)
  with a c comp \<open>course = course'\<close> table
  show "\<exists>a room course.
           next_assignment (assignments snap) (sd_assignment_id sd) = Inr a
         \<and> next_classroom (classrooms snap) (sd_classroom_id sd) = Inr room
         \<and> next_course (courses snap) (asg_course_id a) = Inr course
         \<and> cls_room_type room \<in> spec_acceptable_room_types (crs_room_type course)"
    by auto
qed


theorem room_compatibility_witness:
  "distinct (map asg_id (assignments (ex_snapshot (ex_course LECTURE 1 55) (ex_teacher None None))))
   \<and> distinct (map cls_id (classrooms (ex_snapshot (ex_course LECTURE 1 55) (ex_teacher None None))))
   \<and> (\<exists>dv slots.
         create_decision_variables (ex_snapshot (ex_course LECTURE 1 55) (ex_teacher None None))
           = Inr dv
       \<and> extract_solution (ex_snapshot (ex_course LECTURE 1 55) (ex_teacher None None))
           (ex_value [(1, 1, 0, 1)]) (schedule_vars dv) = Inr slots
       \<and> slots \<noteq> []
       \<and> (\<forall>sd \<in> set slots. \<exists>a room course.
             next_assignment
               (assignments (ex_snapshot (ex_course LECTURE 1 55) (ex_teacher None None)))
               (sd_assignment_id sd) = Inr a
           \<and> next_classroom
               (classrooms (ex_snapshot (ex_course LECTURE 1 55) (ex_teacher None None)))
               (sd_classroom_id sd) = Inr room
           \<and> next_course
               (courses (ex_snapshot (ex_course LECTURE 1 55) (ex_teacher None None)))
               (asg_course_id a) = Inr course
           \<and> cls_room_type room \<in> spec_acceptable_room_types (crs_room_type course)))"
proof -
  let ?snap = "ex_snapshot (ex_course LECTURE 1 55) (ex_teacher None None)"
  have d1: "distinct (map asg_id (assignments ?snap))" by code_simp
  have d2: "distinct (map cls_id (classrooms ?snap))" by code_simp
  have "case create_decision_variables ?snap of
          Inl e \<Rightarrow> False
        | Inr dv \<Rightarrow>
            (case extract_solution ?snap (ex_value [(1, 1, 0, 1)]) (schedule_vars dv) of
               Inl e \<Rightarrow> False
             | Inr slots \<Rightarrow> slots \<noteq> [])"
    by code_simp
  then obtain dv slots where dv: "create_decision_variables ?snap = Inr dv"
    and sl: "extract_solution ?snap (ex_value [(1, 1, 0, 1)]) (schedule_vars dv) = Inr slots"
    and ne: "slots \<noteq> []"
    by (auto split: sum.splits)
  from room_compatibility[OF d1 d2 dv sl] d1 d2 dv sl ne show ?thesis by blast
qed

section \<open>Session counts when no classroom is compatible\<close>

text \<open>
  Claim C1. The claim asks that every assignment gets as many scheduled slots as its
  course has sessions per week, and that generation ends in solver infeasibility when a
  course has no compatible classroom. On the store below (one course of room type lab,
  one lecture room) the built model has no schedule variable and no constraint, since
  the session constraint is added only for a non-empty variable list: every answer is
  feasible, the driver reports success with status \<open>OPTIMAL\<close>, and the extracted solution
  holds no slot for the assignment, whose course asks for one session per week. The run
  then ends with the solution found but not saved, the timetable left \<open>generating\<close>: not
  with infeasibility.
\<close>

theorem missing_room_type_not_infeasible:
  "(case build_model (load_data (ex_db (ex_course LAB 1 55) (ex_teacher None None) ''draft'')
            ''CS'' 1) of
      Inl e \<Rightarrow> False
    | Inr model \<Rightarrow>
        cm_schedule_vars model = [] \<and> cm_constraints model = []
      \<and> fst (solve (ex_solver []) model)
      \<and> stats_status (snd (solve (ex_solver []) model)) = ''OPTIMAL''
      \<and> extract_solution
            (load_data (ex_db (ex_course LAB 1 55) (ex_teacher None None) ''draft'') ''CS'' 1)
            (ex_value []) (cm_schedule_vars model) = Inr [])
   \<and> crs_sessions_per_week (ex_course LAB 1 55) = 1
   \<and> generate_timetable (ex_solver []) ''CS'' 1 1
       (ex_db (ex_course LAB 1 55) (ex_teacher None None) ''draft'')
     = (False, SolutionNotSaved,
        [(''status'', StatStr ''OPTIMAL''), (''num_variables'', StatProtoVariables),
         (''num_constraints'', StatInt 0)],
        ex_db (ex_course LAB 1 55) (ex_teacher None None) ''generating'')"
  by code_simp

section \<open>Days off of a teacher without availability matrix\<close>

text \<open>
  Claim C2. The claim asks that no slot of a teacher falls on one of the teacher's days
  off, whether or not the teacher has an availability matrix. On the snapshot below the
  teacher has no matrix and every day of the week is a day off; the answer with the
  session on Monday, slot 1, satisfies every constraint of the built model, and the
  solution extracted from it is a slot on day 0, a day off. With a matrix present (the
  same teacher, available everywhere) the same answer violates the model.
\<close>

theorem days_off_ignored_without_availability:
  "(case build_model
           (ex_snapshot (ex_course LECTURE 1 55) (ex_teacher None (Some [0, 1, 2, 3, 4]))) of
      Inl e \<Rightarrow> False
    | Inr model \<Rightarrow>
        feasible (ex_value [(1, 1, 0, 1)]) (cm_constraints model)
      \<and> extract_solution
            (ex_snapshot (ex_course LECTURE 1 55) (ex_teacher None (Some [0, 1, 2, 3, 4])))
            (ex_value [(1, 1, 0, 1)]) (cm_schedule_vars model)
          = Inr [\<lparr> sd_assignment_id = 1, sd_classroom_id = 1, sd_day_of_week = 0,
                   sd_start_time = 535, sd_end_time = 590 \<rparr>])
   \<and> td_days_off (teacher_to_dict (ex_teacher None (Some [0, 1, 2, 3, 4]))) = [0, 1, 2, 3, 4]
   \<and> (case build_model
           (ex_snapshot (ex_course LECTURE 1 55)
              (ex_teacher (Some always_available) (Some [0, 1, 2, 3, 4]))) of
      Inl e \<Rightarrow> False
    | Inr model \<Rightarrow> \<not> feasible (ex_value [(1, 1, 0, 1)]) (cm_constraints model))"
  by code_simp

section \<open>End time of a rescheduled slot\<close>

text \<open>
  Claim C3. The claim asks that the end of every slot created or moved is its start plus
  the duration of the course. The coordinator's reschedule of a slot of a 90 minute
  course, whose cell Monday 08:00 is held by another department, creates the row
  starting at 08:55 and ending at 09:50: the end is the start of the next grid slot, 55
  minutes later, not 90.
\<close>

theorem reschedule_ignores_duration:
  "attempt_reschedule (ex_slot 90 True)
     (ex_db_with_slot (ex_course LECTURE 1 90) (ex_teacher (Some always_available) None)
        (ex_slot 90 True))
     \<lparr> global_slots = [((1, 0, 0), ''Math'')], department_timetables = [],
       shared_resources = [] \<rparr>
   = (Some \<lparr> ss_id = 2, dept_timetable_id = 1, assignment_id = 1, classroom_id = 1,
             day_of_week = 0, start_time = 535, end_time = 590, ss_department = ''CS'',
             is_global_slot = True \<rparr>,
      (ex_db_with_slot (ex_course LECTURE 1 90) (ex_teacher (Some always_available) None)
         (ex_slot 90 True))
        \<lparr> db_slots :=
            [\<lparr> ss_id = 2, dept_timetable_id = 1, assignment_id = 1, classroom_id = 1,
               day_of_week = 0, start_time = 535, end_time = 590, ss_department = ''CS'',
               is_global_slot = True \<rparr>],
          db_next_slot_id := 3 \<rparr>)
   \<and> (590::int) \<noteq> 535 + crs_duration_minutes (ex_course LECTURE 1 90)"
  by code_simp

section \<open>Loading the global state twice\<close>

text \<open>
  Claim C6. The claim asks that loading the global state twice gives the same in-memory
  state as loading it once, holding exactly the entries derived from the store. With one
  completed timetable in the store, the registry holds the timetable once after one load
  from the initial coordinator and twice after two; and an index entry that no row of the
  store backs is still there after a load.
\<close>

theorem load_global_state_twice:
  "department_timetables
     (load_global_state (ex_db (ex_course LECTURE 1 55) (ex_teacher None None) ''completed'')
        GlobalScheduler_init)
     = [(''CS'', [ex_timetable ''completed''])]
   \<and> department_timetables
     (load_global_state (ex_db (ex_course LECTURE 1 55) (ex_teacher None None) ''completed'')
        (load_global_state (ex_db (ex_course LECTURE 1 55) (ex_teacher None None) ''completed'')
           GlobalScheduler_init))
     = [(''CS'', [ex_timetable ''completed'', ex_timetable ''completed''])]
   \<and> global_slots
     (load_global_state (ex_db (ex_course LECTURE 1 55) (ex_teacher None None) ''completed'')
        \<lparr> global_slots = [((1, 0, 0), ''Math'')], department_timetables = [],
          shared_resources = [] \<rparr>)
     = [((1, 0, 0), ''Math'')]"
  by code_simp

section \<open>Frame of reserve_global_slots\<close>

text \<open>
  Claim C10. A call of \<open>reserve_global_slots\<close> returns \<open>True\<close>, whatever rows the identities
  match; it keeps the number and order of the slot rows; a row of the named timetable
  whose identity is listed differs from before at most in \<open>is_global_slot\<close>, now true,
  every other row is unchanged; and no other relation of the store changes.
\<close>

theorem reserve_global_slots_frame:
  assumes "reserve_global_slots department timetable_id slot_ids (db, gs) = (ok, db', gs')"
  shows "ok
     \<and> length (db_slots db') = length (db_slots db)
     \<and> (\<forall>i < length (db_slots db).
          db_slots db' ! i =
            (if dept_timetable_id (db_slots db ! i) = timetable_id
                \<and> ss_id (db_slots db ! i) \<in> set slot_ids
             then (db_slots db ! i) \<lparr> is_global_slot := True \<rparr>
             else db_slots db ! i))
     \<and> db' \<lparr> db_slots := db_slots db \<rparr> = db"
  using assms by (auto simp: reserve_global_slots_def Let_def)

theorem reserve_global_slots_frame_witness:
  "\<exists>ok db' gs'.
     reserve_global_slots ''CS'' 1 [1, 7]
       ((ex_db_with_slot (ex_course LECTURE 1 55) (ex_teacher None None) (ex_slot 55 False))
          \<lparr> db_slots := [ex_slot 55 False, (ex_slot 55 False) \<lparr> ss_id := 2, day_of_week := 1 \<rparr>] \<rparr>,
        GlobalScheduler_init) = (ok, db', gs')
     \<and> ok
     \<and> db_slots db' = [ex_slot 55 True, (ex_slot 55 False) \<lparr> ss_id := 2, day_of_week := 1 \<rparr>]
     \<and> db' \<lparr> db_slots := [ex_slot 55 False, (ex_slot 55 False) \<lparr> ss_id := 2, day_of_week := 1 \<rparr>] \<rparr>
         = (ex_db_with_slot (ex_course LECTURE 1 55) (ex_teacher None None) (ex_slot 55 False))
          \<lparr> db_slots := [ex_slot 55 False, (ex_slot 55 False) \<lparr> ss_id := 2, day_of_week := 1 \<rparr>] \<rparr>
     \<and> fst (reserve_global_slots ''CS'' 1 [7]
            (ex_db_with_slot (ex_course LECTURE 1 55) (ex_teacher None None) (ex_slot 55 False),
             GlobalScheduler_init))"
proof -
  obtain ok0 db0 gs0 where
    "reserve_global_slots ''CS'' 1 [7]
       (ex_db_with_slot (ex_course LECTURE 1 55) (ex_teacher None None) (ex_slot 55 False),
        GlobalScheduler_init) = (ok0, db0, gs0)"
    by (metis prod_cases3)
  from reserve_global_slots_frame[OF this] this
  have none: "fst (reserve_global_slots ''CS'' 1 [7]
            (ex_db_with_slot (ex_course LECTURE 1 55) (ex_teacher None None) (ex_slot 55 False),
             GlobalScheduler_init))"
    by simp
  let ?db = "(ex_db_with_slot (ex_course LECTURE 1 55) (ex_teacher None None) (ex_slot 55 False))
          \<lparr> db_slots := [ex_slot 55 False, (ex_slot 55 False) \<lparr> ss_id := 2, day_of_week := 1 \<rparr>] \<rparr>"
  obtain ok db' gs' where r: "reserve_global_slots ''CS'' 1 [1, 7] (?db, GlobalScheduler_init) = (ok, db', gs')"
    by (metis prod_cases3)
  have len: "length (db_slots ?db) = 2" by simp
  have s0: "db_slots ?db ! 0 = ex_slot 55 False" by simp
  have s1: "db_slots ?db ! 1 = (ex_slot 55 False) \<lparr> ss_id := 2, day_of_week := 1 \<rparr>" by simp
  from reserve_global_slots_frame[OF r]
  have ok: ok and l: "length (db_slots db') = 2"
    and n: "\<forall>i < 2. db_slots db' ! i =
            (if dept_timetable_id (db_slots ?db ! i) = 1 \<and> ss_id (db_slots ?db ! i) \<in> set [1, 7]
             then (db_slots ?db ! i) \<lparr> is_global_slot := True \<rparr>
             else db_slots ?db ! i)"
    and f: "db' \<lparr> db_slots := db_slots ?db \<rparr> = ?db"
    by simp_all
  from n have "db_slots db' ! 0 = ex_slot 55 True" "db_slots db' ! 1 = (ex_slot 55 False) \<lparr> ss_id := 2, day_of_week := 1 \<rparr>"
    by (simp_all add: ex_slot_def)
  with l have "db_slots db' = [ex_slot 55 True, (ex_slot 55 False) \<lparr> ss_id := 2, day_of_week := 1 \<rparr>]"
    by (auto simp: list_eq_iff_nth_eq less_Suc_eq numeral_2_eq_2)
  with r ok f none show ?thesis by auto
qed

section \<open>A lunch window with start above end\<close>

lemma py_range2_empty: "a > b \<Longrightarrow> py_range2 a (b + 1) = []"
  by (simp add: py_range2_def)

text \<open>
  Claim C9 says that a lunch-window rule with \<open>start_slot > end_slot\<close> is rejected at
  validation and never reaches the model builder. Here one passes validation, is stored
  with status 201 and is loaded into the snapshot the model builder reads.
\<close>

theorem inverted_lunch_window_counterexample:
  "validate_RuleCreate ex_rc = []
   \<and> fst (create_rules_step6 ''CS'' 1 [ex_rc]
        (ex_db (ex_course LECTURE 1 55) (ex_teacher None None) ''draft'')) = 201
   \<and> map rul_rule_data (rules (load_data (snd (create_rules_step6 ''CS'' 1 [ex_rc]
        (ex_db (ex_course LECTURE 1 55) (ex_teacher None None) ''draft''))) ''CS'' 1))
      = [\<lparr> rd_start_slot = Some 6, rd_end_slot = Some 4, rd_penalty = None, rd_pairs = None \<rparr>]"
  by code_simp

text \<open>
  Claim C9, as the source has it: a \<open>lunch_window\<close> rule with \<open>start_slot > end_slot\<close> and a
  name of 2 to 100 characters passes validation and, its name being new for the
  department and owner, is stored; in the model builder its slot range is empty, so it
  contributes no objective term and no constraint.
\<close>

theorem inverted_lunch_window_accepted:
  assumes "rc_rule_type rc = ''lunch_window''"
    and "2 \<le> length (rc_name rc)" and "length (rc_name rc) \<le> 100"
    and "rd_start_slot (rc_rule_data rc) = Some a"
    and "rd_end_slot (rc_rule_data rc) = Some b"
    and "a > b"
    and "List.find (\<lambda>r. rul_name r = rc_name rc \<and> rul_department r = department
                          \<and> rul_user_id r = user_id) (db_rules db) = None"
  shows "validate_RuleCreate rc = []
     \<and> create_rules_step6 department user_id [rc] db =
         (201, db \<lparr> db_rules := db_rules db @
                     [\<lparr> rul_id = db_next_rule_id db, rul_name = rc_name rc,
                        rul_rule_type = rc_rule_type rc, rul_rule_data = rc_rule_data rc,
                        rul_department = department, rul_user_id = user_id \<rparr>],
                   db_next_rule_id := db_next_rule_id db + 1 \<rparr>)
     \<and> rule_terms snap sv
          \<lparr> rul_id = i, rul_name = rc_name rc, rul_rule_type = rc_rule_type rc,
            rul_rule_data = rc_rule_data rc, rul_department = department,
            rul_user_id = user_id \<rparr> = []
     \<and> rule_constraints snap sv
          \<lparr> rul_id = i, rul_name = rc_name rc, rul_rule_type = rc_rule_type rc,
            rul_rule_data = rc_rule_data rc, rul_department = department,
            rul_user_id = user_id \<rparr> = []"
proof -
  have v: "validate_RuleCreate rc = []"
    using assms(1-3) by (simp add: validate_RuleCreate_def rule_type_pattern_def)
  have s: "create_rules_step6 department user_id [rc] db =
         (201, db \<lparr> db_rules := db_rules db @
                     [\<lparr> rul_id = db_next_rule_id db, rul_name = rc_name rc,
                        rul_rule_type = rc_rule_type rc, rul_rule_data = rc_rule_data rc,
                        rul_department = department, rul_user_id = user_id \<rparr>],
                   db_next_rule_id := db_next_rule_id db + 1 \<rparr>)"
    using v assms(7) by (simp add: create_rules_step6_def)
  have t: "add_lunch_window_constraint snap sv (rc_rule_data rc) = []"
    using assms(4-6) by (simp add: add_lunch_window_constraint_def get_default_def py_range2_empty)
  show ?thesis using v s t assms(1) by (simp add: rule_terms_def rule_constraints_def)
qed

theorem inverted_lunch_window_accepted_witness:
  "rc_rule_type ex_rc = ''lunch_window''
   \<and> 2 \<le> length (rc_name ex_rc) \<and> length (rc_name ex_rc) \<le> 100
   \<and> rd_start_slot (rc_rule_data ex_rc) = Some 6 \<and> rd_end_slot (rc_rule_data ex_rc) = Some 4
   \<and> (6::int) > 4
   \<and> validate_RuleCreate ex_rc = []
   \<and> db_rules (snd (create_rules_step6 ''CS'' 1 [ex_rc]
        (ex_db (ex_course LECTURE 1 55) (ex_teacher None None) ''draft'')))
      = [\<lparr> rul_id = 1, rul_name = ''lunch'', rul_rule_type = ''lunch_window'',
            rul_rule_data = rc_rule_data ex_rc, rul_department = ''CS'', rul_user_id = 1 \<rparr>]
   \<and> rule_terms (ex_snapshot (ex_course LECTURE 1 55) (ex_teacher None None)) [(1, 1, 0, 5)]
          \<lparr> rul_id = 1, rul_name = ''lunch'', rul_rule_type = ''lunch_window'',
            rul_rule_data = rc_rule_data ex_rc, rul_department = ''CS'', rul_user_id = 1 \<rparr> = []"
proof -
  let ?db = "ex_db (ex_course LECTURE 1 55) (ex_teacher None None) ''draft''"
  have h1: "rc_rule_type ex_rc = ''lunch_window''" by (simp add: ex_rc_def)
  have h2: "2 \<le> length (rc_name ex_rc)" by (simp add: ex_rc_def)
  have h3: "length (rc_name ex_rc) \<le> 100" by (simp add: ex_rc_def)
  have h4: "rd_start_slot (rc_rule_data ex_rc) = Some 6" by (simp add: ex_rc_def)
  have h5: "rd_end_slot (rc_rule_data ex_rc) = Some 4" by (simp add: ex_rc_def)
  have h6: "(6::int) > 4" by simp
  have h7: "List.find (\<lambda>r. rul_name r = rc_name ex_rc \<and> rul_department r = ''CS''
                          \<and> rul_user_id r = 1) (db_rules ?db) = None"
    by (simp add: ex_db_def)
  from inverted_lunch_window_accepted[OF h1 h2 h3 h4 h5 h6 h7,
      of "ex_snapshot (ex_course LECTURE 1 55) (ex_teacher None None)" "[(1, 1, 0, 5)]" 1]
  show ?thesis using h1 h2 h3 h4 h5
    by (simp add: ex_db_def ex_rc_def)
qed

section \<open>Generation and the prior status of the timetable\<close>












section \<open>Gap indicators in the objective\<close>

text \<open>
  No constraint of a built model mentions a gap indicator: every variable of every
  constraint is a schedule variable, so putting the indicators to 0 leaves the
  feasibility of any answer as it was.
\<close>

lemma holds_agree:
  assumes "\<And>x. x \<in> set (constr_vars c) \<Longrightarrow> v x = v' x"
  shows "holds v c = holds v' c"
proof (cases c)
  case (SumEq xs n)
  have "map (var_value v) xs = map (var_value v') xs"
    unfolding map_eq_conv using assms SumEq by (simp add: var_value_def)
  with SumEq show ?thesis by (simp only: holds.simps)
next
  case (SumLe xs n)
  have "map (var_value v) xs = map (var_value v') xs"
    unfolding map_eq_conv using assms SumLe by (simp add: var_value_def)
  with SumLe show ?thesis by (simp only: holds.simps)
next
  case (VarEq x n)
  with assms show ?thesis by (simp add: var_value_def)
next
  case (VarsEq x y)
  with assms show ?thesis by (simp add: var_value_def)
qed

lemma clear_gaps_schedule_var: "is_schedule_var x \<Longrightarrow> clear_gaps val x = val x"
  by (cases x) (simp_all add: clear_gaps_def)

lemma only_schedule_vars_append [simp]:
  "only_schedule_vars (xs @ ys) = (only_schedule_vars xs \<and> only_schedule_vars ys)"
  by (auto simp: only_schedule_vars_def)

lemma feasible_clear_gaps:
  "only_schedule_vars cs \<Longrightarrow> feasible (clear_gaps val) cs = feasible val cs"
  unfolding feasible_def only_schedule_vars_def list_all_iff
  by (metis holds_agree clear_gaps_schedule_var)

lemma session_constraints_vars:
  "session_constraints cs sv as = Inr out \<Longrightarrow> only_schedule_vars out"
proof (induction as arbitrary: out)
  case Nil
  then show ?case by (simp add: only_schedule_vars_def)
next
  case (Cons a rest)
  from Cons.prems obtain course others where
    c: "next_course cs (asg_course_id a) = Inr course"
    and o: "session_constraints cs sv rest = Inr others"
    by (auto split: sum.splits)
  from Cons.prems c o Cons.IH[OF o] show ?case
    by (auto simp: only_schedule_vars_def Let_def split: if_splits)
qed

lemma teacher_overlap_vars: "only_schedule_vars (teacher_overlap_constraints snap sv)"
  by (auto simp: only_schedule_vars_def teacher_overlap_constraints_def teacher_cell_vars_def)

lemma room_overlap_vars: "only_schedule_vars (room_overlap_constraints snap sv)"
  by (auto simp: only_schedule_vars_def room_overlap_constraints_def room_cell_vars_def)

lemma teacher_availability_vars:
  "only_schedule_vars (teacher_availability_constraints snap sv teacher)"
  by (auto simp: only_schedule_vars_def teacher_availability_constraints_def
        day_off_constraints_def slot_unavailable_constraints_def Let_def
      split: option.splits if_splits)

lemma availability_vars: "only_schedule_vars (availability_constraints snap sv)"
  using teacher_availability_vars
  by (auto simp: only_schedule_vars_def availability_constraints_def)

lemma max_hours_vars: "only_schedule_vars (max_hours_constraints snap sv)"
  by (auto simp: only_schedule_vars_def max_hours_constraints_def teacher_day_vars_def)

lemma chain_equal_vars:
  "\<forall>x \<in> set xs. is_schedule_var x \<Longrightarrow> only_schedule_vars (chain_equal xs)"
  by (auto simp: only_schedule_vars_def chain_equal_def)

lemma group_vars: "only_schedule_vars (group_constraints snap sv)"
proof -
  have "\<And>members day slot. only_schedule_vars (chain_equal (group_cell_vars snap sv members day slot))"
    by (rule chain_equal_vars) (auto simp: group_cell_vars_def)
  then show ?thesis
    by (auto simp: only_schedule_vars_def group_constraints_def Let_def split: if_splits)
qed

lemma rule_constraints_vars: "only_schedule_vars (soft_rule_constraints snap sv)"
  by (auto simp: only_schedule_vars_def soft_rule_constraints_def rule_constraints_def
        add_forbidden_time_pairs_constraint_def forbidden_pair_constraints_def
      split: option.splits if_splits)

lemma build_model_vars:
  "build_model snap = Inr model \<Longrightarrow> only_schedule_vars (cm_constraints model)"
  by (auto simp: build_model_def add_hard_constraints_def teacher_overlap_vars room_overlap_vars
        availability_vars max_hours_vars group_vars rule_constraints_vars
      dest: session_constraints_vars split: sum.splits)


text \<open>
  Claim C8. The claim asks that of two feasible schedules that differ only in teacher
  gaps the one with more gaps costs strictly more. For one teacher with two sessions on
  Monday, the answers with the sessions at slots 1 and 2 (no gap) and at slots 1 and 3
  (one gap) are both feasible and both cost 0. The objective does hold the weight 10 on
  the indicator of that gap, but nothing ties the indicator to the schedule: the second
  answer with the indicator at 1 is feasible as well and costs 10.
\<close>

theorem gap_cost_not_monotone:
  "(case build_model (ex_snapshot (ex_course LECTURE 2 55) (ex_teacher None None)) of
      Inl e \<Rightarrow> False
    | Inr model \<Rightarrow>
        feasible (ex_value [(1, 1, 0, 1), (1, 1, 0, 2)]) (cm_constraints model)
      \<and> feasible (ex_value [(1, 1, 0, 1), (1, 1, 0, 3)]) (cm_constraints model)
      \<and> spec_gap_count (ex_snapshot (ex_course LECTURE 2 55) (ex_teacher None None))
          (cm_schedule_vars model) (ex_value [(1, 1, 0, 1), (1, 1, 0, 2)]) = 0
      \<and> spec_gap_count (ex_snapshot (ex_course LECTURE 2 55) (ex_teacher None None))
          (cm_schedule_vars model) (ex_value [(1, 1, 0, 1), (1, 1, 0, 3)]) = 1
      \<and> (case cm_objective model of
            None \<Rightarrow> False
          | Some terms \<Rightarrow>
              (GapVar 1 0 1, 10) \<in> set terms
            \<and> objective_value (ex_value [(1, 1, 0, 1), (1, 1, 0, 2)]) terms = 0
            \<and> objective_value (ex_value [(1, 1, 0, 1), (1, 1, 0, 3)]) terms = 0
            \<and> feasible ex_gap_value (cm_constraints model)
            \<and> objective_value ex_gap_value terms = 10))"
  by code_simp

section \<open>Coordinator consistency under reserve and release\<close>

lemma distinct_iff_count: "distinct xs \<longleftrightarrow> (\<forall>x \<in> set xs. count_list xs x \<le> 1)"
  by (induction xs) (auto simp: count_list_0_iff)

lemma count_list_map_filter:
  "count_list (map f xs) k = length (filter (\<lambda>e. f e = k) xs)"
  by (induction xs) auto

lemma validate_ok_iff:
  "validate_global_consistency db gs = (True, []) \<longleftrightarrow>
     dom (map_of (global_slots gs)) = slot_key ` {s \<in> set (db_slots db). is_global_slot s}
     \<and> distinct (map slot_key (filter is_global_slot (db_slots db)))"
proof -
  let ?keys = "map slot_key (filter is_global_slot (db_slots db))"
  let ?counted = "fold (\<lambda>k ks. dict_add ks k) ?keys []"
  have nodouble: "filter (\<lambda>k. count_list ?keys k > 1) ?counted = [] \<longleftrightarrow> distinct ?keys"
    unfolding distinct_iff_count[of ?keys] filter_empty_conv set_fold_dict_add
    by (auto simp: not_less)
  have keys: "set ?keys = slot_key ` {s \<in> set (db_slots db). is_global_slot s}"
    by auto
  have mem: "set (map fst (global_slots gs)) = dom (map_of (global_slots gs))"
    by (simp add: dom_map_of_conv_image_fst)
  have "validate_global_consistency db gs = (True, []) \<longleftrightarrow>
      dom (map_of (global_slots gs)) - slot_key ` {s \<in> set (db_slots db). is_global_slot s} = {}
      \<and> slot_key ` {s \<in> set (db_slots db). is_global_slot s} - dom (map_of (global_slots gs)) = {}
      \<and> filter (\<lambda>k. count_list ?keys k > 1) ?counted = []"
    unfolding validate_global_consistency_def Let_def keys mem
    by auto
  also have "\<dots> \<longleftrightarrow>
     dom (map_of (global_slots gs)) = slot_key ` {s \<in> set (db_slots db). is_global_slot s}
     \<and> distinct ?keys"
    unfolding nodouble by auto
  finally show ?thesis .
qed

lemma fold_update_map_of:
  "map_of (fold (\<lambda>s g. AList.update (f s) d g) xs G) k
     = (if k \<in> f ` set xs then Some d else map_of G k)"
  by (induction xs arbitrary: G) (auto simp: update_conv')

lemma fold_update_distinct:
  "distinct (map fst G) \<Longrightarrow> distinct (map fst (fold (\<lambda>s g. AList.update (f s) d g) xs G))"
  by (induction xs arbitrary: G) (auto simp: distinct_update)

lemma fold_delete_map_of:
  "map_of (fold (\<lambda>s g. if map_of g (f s) = Some d then AList.delete (f s) g else g) xs G) k
     = (if k \<in> f ` set xs \<and> map_of G k = Some d then None else map_of G k)"
  by (induction xs arbitrary: G) (auto simp: delete_conv')

lemma fold_delete_distinct:
  "distinct (map fst G) \<Longrightarrow>
   distinct (map fst (fold (\<lambda>s g. if map_of g (f s) = Some d then AList.delete (f s) g else g) xs G))"
  by (induction xs arbitrary: G) (auto simp: distinct_delete)

lemma single_entry:
  "distinct (map fst G) \<Longrightarrow> map_of G k = Some v \<Longrightarrow> filter (\<lambda>e. fst e = k) G = [(k, v)]"
proof (induction G)
  case Nil
  then show ?case by simp
next
  case (Cons e G)
  show ?case
  proof (cases "fst e = k")
    case True
    with Cons.prems have "e = (k, v)" by (cases e) auto
    moreover from True Cons.prems have "filter (\<lambda>e. fst e = k) G = []"
      by (auto simp: filter_empty_conv image_iff)
    ultimately show ?thesis by simp
  next
    case False
    with Cons show ?thesis by auto
  qed
qed


lemma slot_key_global [simp]: "slot_key (s \<lparr> is_global_slot := b \<rparr>) = slot_key s"
  by (simp add: slot_key_def)


lemma entry_map_of:
  "filter (\<lambda>e. fst e = k) G = [(k, v)] \<Longrightarrow> map_of G k = Some v"
proof (induction G)
  case Nil
  then show ?case by simp
next
  case (Cons e G)
  then show ?case by (cases e) (auto split: if_splits)
qed

lemma consistent_iff_agree:
  "coordinator_consistent (db, gs) \<longleftrightarrow> store_index_agree db gs"
proof
  assume c: "coordinator_consistent (db, gs)"
  then have v: "validate_global_consistency db gs = (True, [])"
    and e: "\<forall>s \<in> set (db_slots db). is_global_slot s \<longrightarrow>
        filter (\<lambda>e. fst e = slot_key s) (global_slots gs) = [(slot_key s, ss_department s)]"
    by (auto simp: coordinator_consistent_def list_all_iff)
  from v have dom: "dom (map_of (global_slots gs))
        = slot_key ` {s \<in> set (db_slots db). is_global_slot s}"
    and dk: "distinct (map slot_key (filter is_global_slot (db_slots db)))"
    by (simp_all add: validate_ok_iff)
  have "\<forall>k \<in> set (map fst (global_slots gs)). count_list (map fst (global_slots gs)) k \<le> 1"
  proof
    fix k assume "k \<in> set (map fst (global_slots gs))"
    then have "k \<in> dom (map_of (global_slots gs))" by (simp add: dom_map_of_conv_image_fst)
    with dom obtain s where "s \<in> set (db_slots db)" "is_global_slot s" "k = slot_key s"
      by auto
    with e have "filter (\<lambda>e. fst e = k) (global_slots gs) = [(k, ss_department s)]" by auto
    then show "count_list (map fst (global_slots gs)) k \<le> 1"
      by (simp add: count_list_map_filter)
  qed
  then have dG: "distinct (map fst (global_slots gs))" by (simp add: distinct_iff_count)
  from e have "\<forall>s \<in> set (db_slots db). is_global_slot s \<longrightarrow>
            map_of (global_slots gs) (slot_key s) = Some (ss_department s)"
    by (auto dest: entry_map_of)
  with dom dk dG show "store_index_agree db gs" by (simp add: store_index_agree_def)
next
  assume "store_index_agree db gs"
  then have dk: "distinct (map slot_key (filter is_global_slot (db_slots db)))"
    and dG: "distinct (map fst (global_slots gs))"
    and dom: "dom (map_of (global_slots gs)) = slot_key ` {s \<in> set (db_slots db). is_global_slot s}"
    and own: "\<forall>s \<in> set (db_slots db). is_global_slot s \<longrightarrow>
            map_of (global_slots gs) (slot_key s) = Some (ss_department s)"
    by (auto simp: store_index_agree_def)
  from dom dk have "validate_global_consistency db gs = (True, [])"
    by (simp add: validate_ok_iff)
  moreover from own dG have "\<forall>s \<in> set (db_slots db). is_global_slot s \<longrightarrow>
        filter (\<lambda>e. fst e = slot_key s) (global_slots gs) = [(slot_key s, ss_department s)]"
    by (auto intro: single_entry)
  ultimately show "coordinator_consistent (db, gs)"
    by (simp add: coordinator_consistent_def list_all_iff)
qed


lemma filter_global_after:
  assumes "\<And>s. slot_key (upd s) = slot_key s"
  shows "map slot_key (filter is_global_slot (map upd xs))
     = map slot_key (filter (\<lambda>s. is_global_slot (upd s)) xs)"
  by (induction xs) (auto simp: assms)

lemma reserve_step:
  assumes inv: "store_index_agree db gs"
    and r: "reserve_global_slots d t ids (db, gs) = (ok, db', gs')"
  shows "store_index_agree db' gs' \<longleftrightarrow> op_admissible (Reserve d t ids) (db, gs)"
proof -
  define match where "match = (\<lambda>s::ScheduledSlot. dept_timetable_id s = t \<and> ss_id s \<in> set ids)"
  define upd where "upd = (\<lambda>s::ScheduledSlot. if match s then s \<lparr> is_global_slot := True \<rparr> else s)"
  define reserved where
    "reserved = filter (\<lambda>s. match s \<and> is_global_slot s) (map upd (db_slots db))"
  define named where "named = filter (\<lambda>s. match s \<or> is_global_slot s) (db_slots db)"
  from r have slots': "db_slots db' = map upd (db_slots db)"
    and G': "global_slots gs' =
        fold (\<lambda>slot g. AList.update (slot_key slot) d g) reserved (global_slots gs)"
    by (auto simp: reserve_global_slots_def Let_def match_def upd_def reserved_def)
  have key_upd: "\<And>s. slot_key (upd s) = slot_key s" by (simp add: upd_def)
  have match_upd: "\<And>s. match (upd s) = match s" by (simp add: upd_def match_def)
  have glob_upd: "\<And>s. is_global_slot (upd s) = (match s \<or> is_global_slot s)"
    by (simp add: upd_def)
  have dept_upd: "\<And>s. ss_department (upd s) = ss_department s" by (simp add: upd_def)
  have adm: "op_admissible (Reserve d t ids) (db, gs) \<longleftrightarrow>
      (\<forall>s \<in> set (db_slots db). match s \<longrightarrow> ss_department s = d) \<and> distinct (map slot_key named)"
    by (simp add: match_def named_def list_all_iff)
  have keys': "map slot_key (filter is_global_slot (db_slots db')) = map slot_key named"
    unfolding slots' named_def filter_global_after[of upd, OF key_upd] glob_upd ..
  have rk: "slot_key ` set reserved = slot_key ` {s \<in> set (db_slots db). match s}"
    unfolding reserved_def
    by (auto simp: key_upd match_upd glob_upd image_iff) (metis key_upd match_upd glob_upd)+
  from inv have dG: "distinct (map fst (global_slots gs))"
    and dom: "dom (map_of (global_slots gs)) = slot_key ` {s \<in> set (db_slots db). is_global_slot s}"
    and own: "\<forall>s \<in> set (db_slots db). is_global_slot s \<longrightarrow>
            map_of (global_slots gs) (slot_key s) = Some (ss_department s)"
    by (auto simp: store_index_agree_def)
  have m': "\<And>k. map_of (global_slots gs') k
      = (if k \<in> slot_key ` {s \<in> set (db_slots db). match s} then Some d
         else map_of (global_slots gs) k)"
    unfolding G' fold_update_map_of rk ..
  have c2: "distinct (map fst (global_slots gs'))"
    unfolding G' using dG by (rule fold_update_distinct)
  have c3: "dom (map_of (global_slots gs')) = slot_key ` {s \<in> set (db_slots db'). is_global_slot s}"
  proof -
    have "dom (map_of (global_slots gs'))
        = slot_key ` {s \<in> set (db_slots db). match s} \<union> dom (map_of (global_slots gs))"
      by (auto simp: m' dom_def split: if_splits)
    also have "\<dots> = slot_key ` {s \<in> set (db_slots db). match s \<or> is_global_slot s}"
      unfolding dom by auto
    also have "\<dots> = slot_key ` {s \<in> set (db_slots db'). is_global_slot s}"
      unfolding slots' by (auto simp: key_upd glob_upd image_iff) (metis key_upd glob_upd)+
    finally show ?thesis .
  qed
  show ?thesis
  proof
    assume inv': "store_index_agree db' gs'"
    then have "distinct (map slot_key named)"
      by (simp add: store_index_agree_def keys')
    moreover have "\<forall>s \<in> set (db_slots db). match s \<longrightarrow> ss_department s = d"
    proof (intro ballI impI)
      fix s assume s: "s \<in> set (db_slots db)" and ms: "match s"
      then have "upd s \<in> set (db_slots db')" "is_global_slot (upd s)"
        by (simp_all add: slots' glob_upd)
      with inv' have "map_of (global_slots gs') (slot_key (upd s)) = Some (ss_department (upd s))"
        by (auto simp: store_index_agree_def)
      moreover from s ms have "map_of (global_slots gs') (slot_key s) = Some d"
        by (auto simp: m')
      ultimately show "ss_department s = d" by (simp add: key_upd dept_upd)
    qed
    ultimately show "op_admissible (Reserve d t ids) (db, gs)" using adm by blast
  next
    assume "op_admissible (Reserve d t ids) (db, gs)"
    with adm have addr: "\<forall>s \<in> set (db_slots db). match s \<longrightarrow> ss_department s = d"
      and dn: "distinct (map slot_key named)"
      by blast+
    from dn have inj: "inj_on slot_key (set named)" by (simp add: distinct_map)
    have c1: "distinct (map slot_key (filter is_global_slot (db_slots db')))"
      using dn by (simp add: keys')
    have c4: "\<forall>s \<in> set (db_slots db'). is_global_slot s \<longrightarrow>
            map_of (global_slots gs') (slot_key s) = Some (ss_department s)"
    proof (intro ballI impI)
      fix s' assume "s' \<in> set (db_slots db')" and g: "is_global_slot s'"
      then obtain s where s: "s \<in> set (db_slots db)" and s': "s' = upd s"
        by (auto simp: slots')
      show "map_of (global_slots gs') (slot_key s') = Some (ss_department s')"
      proof (cases "match s")
        case True
        with s addr have "ss_department s = d" by auto
        with True s show ?thesis by (auto simp: s' key_upd dept_upd m')
      next
        case False
        with g s' have gs: "is_global_slot s" by (simp add: glob_upd)
        have "slot_key s \<notin> slot_key ` {s \<in> set (db_slots db). match s}"
        proof
          assume "slot_key s \<in> slot_key ` {s \<in> set (db_slots db). match s}"
          then obtain u where u: "u \<in> set (db_slots db)" "match u" "slot_key u = slot_key s"
            by auto
          from u s gs have "u \<in> set named" "s \<in> set named" by (simp_all add: named_def)
          with inj u(3) have "u = s" by (auto dest: inj_onD)
          with u(2) False show False by simp
        qed
        with own s gs show ?thesis by (simp add: s' key_upd dept_upd m')
      qed
    qed
    show "store_index_agree db' gs'"
      using c1 c2 c3 c4 by (simp add: store_index_agree_def)
  qed
qed

lemma release_step:
  assumes inv: "store_index_agree db gs"
    and r: "release_global_slots d t (db, gs) = (ok, db', gs')"
  shows "store_index_agree db' gs' \<longleftrightarrow> op_admissible (Release d t) (db, gs)"
proof -
  define match where
    "match = (\<lambda>s::ScheduledSlot. dept_timetable_id s = t \<and> is_global_slot s)"
  define upd where
    "upd = (\<lambda>s::ScheduledSlot. if match s then s \<lparr> is_global_slot := False \<rparr> else s)"
  define released where "released = filter match (db_slots db)"
  from r have slots': "db_slots db' = map upd (db_slots db)"
    and G': "global_slots gs' =
        fold (\<lambda>slot g. if map_of g (slot_key slot) = Some d
                        then AList.delete (slot_key slot) g else g) released (global_slots gs)"
    by (auto simp: release_global_slots_def Let_def match_def upd_def released_def)
  have key_upd: "\<And>s. slot_key (upd s) = slot_key s" by (simp add: upd_def)
  have glob_upd: "\<And>s. is_global_slot (upd s) = (is_global_slot s \<and> \<not> match s)"
    by (auto simp: upd_def match_def)
  have dept_upd: "\<And>s. ss_department (upd s) = ss_department s" by (simp add: upd_def)
  have adm: "op_admissible (Release d t) (db, gs) \<longleftrightarrow>
      (\<forall>s \<in> set (db_slots db). match s \<longrightarrow> ss_department s = d)"
    by (simp add: match_def list_all_iff)
  from inv have dk: "distinct (map slot_key (filter is_global_slot (db_slots db)))"
    and dG: "distinct (map fst (global_slots gs))"
    and dom: "dom (map_of (global_slots gs)) = slot_key ` {s \<in> set (db_slots db). is_global_slot s}"
    and own: "\<forall>s \<in> set (db_slots db). is_global_slot s \<longrightarrow>
            map_of (global_slots gs) (slot_key s) = Some (ss_department s)"
    by (auto simp: store_index_agree_def)
  from dk have inj: "inj_on slot_key (set (filter is_global_slot (db_slots db)))"
    by (simp add: distinct_map)
  have m': "\<And>k. map_of (global_slots gs') k
      = (if k \<in> slot_key ` set released \<and> map_of (global_slots gs) k = Some d then None
         else map_of (global_slots gs) k)"
    unfolding G' fold_delete_map_of ..
  have other: "\<And>s. s \<in> set (db_slots db) \<Longrightarrow> is_global_slot s \<Longrightarrow> \<not> match s \<Longrightarrow>
      slot_key s \<notin> slot_key ` set released"
  proof
    fix s assume s: "s \<in> set (db_slots db)" "is_global_slot s" and n: "\<not> match s"
      and "slot_key s \<in> slot_key ` set released"
    then obtain u where u: "u \<in> set (db_slots db)" "match u" "slot_key u = slot_key s"
      by (auto simp: released_def)
    then have "is_global_slot u" by (simp add: match_def)
    with inj s u have "u = s" by (auto dest: inj_onD)
    with u(2) n show False by simp
  qed
  have c1: "distinct (map slot_key (filter is_global_slot (db_slots db')))"
  proof -
    have "distinct (map slot_key
        (filter (\<lambda>s. \<not> match s) (filter is_global_slot (db_slots db))))"
      using dk by (rule distinct_map_filter)
    then have "distinct (map slot_key
        (filter (\<lambda>s. is_global_slot s \<and> \<not> match s) (db_slots db)))"
      by simp
    then show ?thesis
      unfolding slots' filter_global_after[of upd, OF key_upd] glob_upd .
  qed
  have c2: "distinct (map fst (global_slots gs'))"
    unfolding G' using dG by (rule fold_delete_distinct)
  have glob': "slot_key ` {s \<in> set (db_slots db'). is_global_slot s}
      = slot_key ` {s \<in> set (db_slots db). is_global_slot s \<and> \<not> match s}"
    unfolding slots' by (auto simp: key_upd glob_upd image_iff) (metis key_upd glob_upd)+
  show ?thesis
  proof
    assume inv': "store_index_agree db' gs'"
    have "\<forall>s \<in> set (db_slots db). match s \<longrightarrow> ss_department s = d"
    proof (intro ballI impI, rule ccontr)
      fix s assume s: "s \<in> set (db_slots db)" and ms: "match s" and nd: "ss_department s \<noteq> d"
      from ms have gs: "is_global_slot s" by (simp add: match_def)
      with own s have "map_of (global_slots gs) (slot_key s) = Some (ss_department s)" by auto
      with nd have "map_of (global_slots gs') (slot_key s) = Some (ss_department s)"
        by (simp add: m')
      then have "slot_key s \<in> dom (map_of (global_slots gs'))" by auto
      with inv' have "slot_key s \<in> slot_key ` {s \<in> set (db_slots db'). is_global_slot s}"
        by (simp add: store_index_agree_def)
      then obtain u where u: "u \<in> set (db_slots db)" "is_global_slot u" "\<not> match u"
        "slot_key u = slot_key s"
        unfolding glob' by auto
      with inj s gs have "u = s" by (auto dest: inj_onD)
      with u(3) ms show False by simp
    qed
    then show "op_admissible (Release d t) (db, gs)" using adm by blast
  next
    assume "op_admissible (Release d t) (db, gs)"
    with adm have addr: "\<forall>s \<in> set (db_slots db). match s \<longrightarrow> ss_department s = d"
      by blast
    have rel_own: "\<And>k. k \<in> slot_key ` set released \<Longrightarrow> map_of (global_slots gs) k = Some d"
      using own addr by (auto simp: released_def match_def)
    have m'': "\<And>k. map_of (global_slots gs') k
        = (if k \<in> slot_key ` set released then None else map_of (global_slots gs) k)"
      using rel_own by (auto simp: m')
    have c3: "dom (map_of (global_slots gs'))
        = slot_key ` {s \<in> set (db_slots db'). is_global_slot s}"
    proof -
      have "dom (map_of (global_slots gs'))
          = dom (map_of (global_slots gs)) - slot_key ` set released"
        by (auto simp: m'' dom_def split: if_splits)
      also have "\<dots> = slot_key ` {s \<in> set (db_slots db). is_global_slot s \<and> \<not> match s}"
      proof (intro set_eqI iffI)
        fix k assume "k \<in> dom (map_of (global_slots gs)) - slot_key ` set released"
        then obtain s where "s \<in> set (db_slots db)" "is_global_slot s" "k = slot_key s"
          and "k \<notin> slot_key ` set released"
          unfolding dom by auto
        moreover from this have "\<not> match s" by (auto simp: released_def)
        ultimately show "k \<in> slot_key ` {s \<in> set (db_slots db). is_global_slot s \<and> \<not> match s}"
          by auto
      next
        fix k assume "k \<in> slot_key ` {s \<in> set (db_slots db). is_global_slot s \<and> \<not> match s}"
        then obtain s where s: "s \<in> set (db_slots db)" "is_global_slot s" "\<not> match s"
          "k = slot_key s"
          by auto
        with other[of s] show "k \<in> dom (map_of (global_slots gs)) - slot_key ` set released"
          unfolding dom by auto
      qed
      finally show ?thesis unfolding glob' .
    qed
    have c4: "\<forall>s \<in> set (db_slots db'). is_global_slot s \<longrightarrow>
            map_of (global_slots gs') (slot_key s) = Some (ss_department s)"
    proof (intro ballI impI)
      fix s' assume "s' \<in> set (db_slots db')" and g: "is_global_slot s'"
      then obtain s where s: "s \<in> set (db_slots db)" and s': "s' = upd s"
        by (auto simp: slots')
      from g s' have gs: "is_global_slot s" and n: "\<not> match s" by (simp_all add: glob_upd)
      from other[OF s gs n] own s gs
      show "map_of (global_slots gs') (slot_key s') = Some (ss_department s')"
        by (simp add: s' key_upd dept_upd m'')
    qed
    show "store_index_agree db' gs'"
      using c1 c2 c3 c4 by (simp add: store_index_agree_def)
  qed
qed


lemma apply_op_consistent:
  assumes "coordinator_consistent st"
  shows "coordinator_consistent (apply_op op st) \<longleftrightarrow> op_admissible op st"
proof -
  obtain db gs where st: "st = (db, gs)" by (cases st)
  from assms have inv: "store_index_agree db gs" by (simp add: st consistent_iff_agree)
  show ?thesis
  proof (cases op)
    case (Reserve d t ids)
    obtain ok db' gs' where r: "reserve_global_slots d t ids (db, gs) = (ok, db', gs')"
      by (cases "reserve_global_slots d t ids (db, gs)")
    from reserve_step[OF inv r] r Reserve show ?thesis
      by (simp add: st consistent_iff_agree)
  next
    case (Release d t)
    obtain ok db' gs' where r: "release_global_slots d t (db, gs) = (ok, db', gs')"
      by (cases "release_global_slots d t (db, gs)")
    from release_step[OF inv r] r Release show ?thesis
      by (simp add: st consistent_iff_agree)
  qed
qed

lemma run_consistent:
  "coordinator_consistent st \<Longrightarrow> consistent_after_each ops st \<longleftrightarrow> admissible_run ops st"
proof (induction ops arbitrary: st)
  case Nil
  then show ?case by simp
next
  case (Cons op ops)
  show ?case
  proof (cases "op_admissible op st")
    case True
    with apply_op_consistent[OF Cons.prems, of op]
    have c: "coordinator_consistent (apply_op op st)" by simp
    from Cons.IH[OF c] c True show ?thesis by simp
  next
    case False
    with apply_op_consistent[OF Cons.prems, of op] show ?thesis by simp
  qed
qed

lemma run_final:
  "coordinator_consistent st \<Longrightarrow> consistent_after_each ops st \<Longrightarrow>
   coordinator_consistent (run_ops ops st)"
  by (induction ops arbitrary: st) (auto simp: run_ops_def)

text \<open>
  Claim C4 says that validation is ok after any sequence of reserve and release calls,
  by any departments over any timetables. Here are two runs from a consistent state
  that end inconsistent: a release under another department's name leaves the entry in
  the index (orphaned in memory), and reserving two rows of different timetables on one
  cell gives a double booking.
\<close>

theorem coordinator_consistency_counterexample:
  "validate_global_consistency
     (ex_db_with_slot (ex_course LECTURE 1 55) (ex_teacher None None) (ex_slot 55 False))
     GlobalScheduler_init = (True, [])
   \<and> validate_global_consistency
       (fst (run_ops [Reserve ''CS'' 1 [1], Release ''Math'' 1]
          (ex_db_with_slot (ex_course LECTURE 1 55) (ex_teacher None None) (ex_slot 55 False),
           GlobalScheduler_init)))
       (snd (run_ops [Reserve ''CS'' 1 [1], Release ''Math'' 1]
          (ex_db_with_slot (ex_course LECTURE 1 55) (ex_teacher None None) (ex_slot 55 False),
           GlobalScheduler_init)))
     = (False, [OrphanedInMemory 1])
   \<and> validate_global_consistency
       ((ex_db_with_slot (ex_course LECTURE 1 55) (ex_teacher None None) (ex_slot 55 False))
          \<lparr> db_slots := [ex_slot 55 False,
                          (ex_slot 55 False) \<lparr> ss_id := 2, dept_timetable_id := 2 \<rparr>] \<rparr>)
       GlobalScheduler_init = (True, [])
   \<and> validate_global_consistency
       (fst (run_ops [Reserve ''CS'' 1 [1], Reserve ''CS'' 2 [2]]
          ((ex_db_with_slot (ex_course LECTURE 1 55) (ex_teacher None None) (ex_slot 55 False))
             \<lparr> db_slots := [ex_slot 55 False,
                             (ex_slot 55 False) \<lparr> ss_id := 2, dept_timetable_id := 2 \<rparr>] \<rparr>,
           GlobalScheduler_init)))
       (snd (run_ops [Reserve ''CS'' 1 [1], Reserve ''CS'' 2 [2]]
          ((ex_db_with_slot (ex_course LECTURE 1 55) (ex_teacher None None) (ex_slot 55 False))
             \<lparr> db_slots := [ex_slot 55 False,
                             (ex_slot 55 False) \<lparr> ss_id := 2, dept_timetable_id := 2 \<rparr>] \<rparr>,
           GlobalScheduler_init)))
     = (False, [DoubleBooked 1])"
  by code_simp



text \<open>
  Claim C4, as the source has it: from a state in which validation returns ok and the
  index has exactly one entry for the cell of every global row, mapping it to the row's
  department, the state is consistent in this sense after every call of a finite
  sequence of reserve and release calls if and only if every call is admissible in the
  state it is made in: a reserve names only rows of the calling department and the rows
  it names together with the rows already global lie on pairwise different cells, and a
  release is made under the department of the global rows of the timetable it names.
  After such a sequence validation returns ok with no error and the index has exactly
  one entry for the cell of every global row, mapping it to the row's department.
\<close>

theorem coordinator_consistency:
  assumes "validate_global_consistency db gs = (True, [])"
    and "\<forall>s \<in> set (db_slots db). is_global_slot s \<longrightarrow>
           filter (\<lambda>e. fst e = slot_key s) (global_slots gs) = [(slot_key s, ss_department s)]"
  shows "(consistent_after_each ops (db, gs) \<longleftrightarrow> admissible_run ops (db, gs))
     \<and> (admissible_run ops (db, gs) \<longrightarrow>
          validate_global_consistency (fst (run_ops ops (db, gs))) (snd (run_ops ops (db, gs)))
            = (True, [])
        \<and> (\<forall>s \<in> set (db_slots (fst (run_ops ops (db, gs)))). is_global_slot s \<longrightarrow>
              filter (\<lambda>e. fst e = slot_key s) (global_slots (snd (run_ops ops (db, gs))))
                = [(slot_key s, ss_department s)]))"
proof -
  from assms have c: "coordinator_consistent (db, gs)"
    by (simp add: coordinator_consistent_def list_all_iff)
  have iff: "consistent_after_each ops (db, gs) \<longleftrightarrow> admissible_run ops (db, gs)"
    using c by (rule run_consistent)
  have fin: "admissible_run ops (db, gs) \<Longrightarrow> coordinator_consistent (run_ops ops (db, gs))"
    using c iff by (auto intro: run_final)
  show ?thesis
    using iff fin by (auto simp: coordinator_consistent_def list_all_iff)
qed

theorem coordinator_consistency_witness:
  "validate_global_consistency ((ex_db_with_slot (ex_course LECTURE 1 55) (ex_teacher None None) (ex_slot 55 False))
        \<lparr> db_slots := [ex_slot 55 False,
                        (ex_slot 55 False) \<lparr> ss_id := 2, dept_timetable_id := 2 \<rparr>] \<rparr>) GlobalScheduler_init = (True, [])
   \<and> list_all (\<lambda>s. is_global_slot s \<longrightarrow>
         filter (\<lambda>e. fst e = slot_key s) (global_slots GlobalScheduler_init)
           = [(slot_key s, ss_department s)])
       (db_slots ((ex_db_with_slot (ex_course LECTURE 1 55) (ex_teacher None None) (ex_slot 55 False))
        \<lparr> db_slots := [ex_slot 55 False,
                        (ex_slot 55 False) \<lparr> ss_id := 2, dept_timetable_id := 2 \<rparr>] \<rparr>))
   \<and> admissible_run [Reserve ''CS'' 1 [1], Release ''CS'' 1, Reserve ''CS'' 2 [2]]
        (((ex_db_with_slot (ex_course LECTURE 1 55) (ex_teacher None None) (ex_slot 55 False))
        \<lparr> db_slots := [ex_slot 55 False,
                        (ex_slot 55 False) \<lparr> ss_id := 2, dept_timetable_id := 2 \<rparr>] \<rparr>), GlobalScheduler_init)
   \<and> consistent_after_each [Reserve ''CS'' 1 [1], Release ''CS'' 1, Reserve ''CS'' 2 [2]]
        (((ex_db_with_slot (ex_course LECTURE 1 55) (ex_teacher None None) (ex_slot 55 False))
        \<lparr> db_slots := [ex_slot 55 False,
                        (ex_slot 55 False) \<lparr> ss_id := 2, dept_timetable_id := 2 \<rparr>] \<rparr>), GlobalScheduler_init)
   \<and> map is_global_slot (db_slots (fst (run_ops [Reserve ''CS'' 1 [1], Release ''CS'' 1, Reserve ''CS'' 2 [2]]
        (((ex_db_with_slot (ex_course LECTURE 1 55) (ex_teacher None None) (ex_slot 55 False))
        \<lparr> db_slots := [ex_slot 55 False,
                        (ex_slot 55 False) \<lparr> ss_id := 2, dept_timetable_id := 2 \<rparr>] \<rparr>), GlobalScheduler_init)))) = [False, True]
   \<and> global_slots (snd (run_ops [Reserve ''CS'' 1 [1], Release ''CS'' 1, Reserve ''CS'' 2 [2]]
        (((ex_db_with_slot (ex_course LECTURE 1 55) (ex_teacher None None) (ex_slot 55 False))
        \<lparr> db_slots := [ex_slot 55 False,
                        (ex_slot 55 False) \<lparr> ss_id := 2, dept_timetable_id := 2 \<rparr>] \<rparr>), GlobalScheduler_init))) = [((1, 0, 0), ''CS'')]
   \<and> validate_global_consistency (fst (run_ops [Reserve ''CS'' 1 [1], Release ''CS'' 1, Reserve ''CS'' 2 [2]]
        (((ex_db_with_slot (ex_course LECTURE 1 55) (ex_teacher None None) (ex_slot 55 False))
        \<lparr> db_slots := [ex_slot 55 False,
                        (ex_slot 55 False) \<lparr> ss_id := 2, dept_timetable_id := 2 \<rparr>] \<rparr>), GlobalScheduler_init))) (snd (run_ops [Reserve ''CS'' 1 [1], Release ''CS'' 1, Reserve ''CS'' 2 [2]]
        (((ex_db_with_slot (ex_course LECTURE 1 55) (ex_teacher None None) (ex_slot 55 False))
        \<lparr> db_slots := [ex_slot 55 False,
                        (ex_slot 55 False) \<lparr> ss_id := 2, dept_timetable_id := 2 \<rparr>] \<rparr>), GlobalScheduler_init))) = (True, [])
   \<and> list_all (\<lambda>s. is_global_slot s \<longrightarrow>
         filter (\<lambda>e. fst e = slot_key s) (global_slots (snd (run_ops [Reserve ''CS'' 1 [1], Release ''CS'' 1, Reserve ''CS'' 2 [2]]
        (((ex_db_with_slot (ex_course LECTURE 1 55) (ex_teacher None None) (ex_slot 55 False))
        \<lparr> db_slots := [ex_slot 55 False,
                        (ex_slot 55 False) \<lparr> ss_id := 2, dept_timetable_id := 2 \<rparr>] \<rparr>), GlobalScheduler_init))))
           = [(slot_key s, ss_department s)])
       (db_slots (fst (run_ops [Reserve ''CS'' 1 [1], Release ''CS'' 1, Reserve ''CS'' 2 [2]]
        (((ex_db_with_slot (ex_course LECTURE 1 55) (ex_teacher None None) (ex_slot 55 False))
        \<lparr> db_slots := [ex_slot 55 False,
                        (ex_slot 55 False) \<lparr> ss_id := 2, dept_timetable_id := 2 \<rparr>] \<rparr>), GlobalScheduler_init))))"
proof -
  let ?db = "((ex_db_with_slot (ex_course LECTURE 1 55) (ex_teacher None None) (ex_slot 55 False))
        \<lparr> db_slots := [ex_slot 55 False,
                        (ex_slot 55 False) \<lparr> ss_id := 2, dept_timetable_id := 2 \<rparr>] \<rparr>)"
  let ?ops = "[Reserve ''CS'' 1 [1], Release ''CS'' 1, Reserve ''CS'' 2 [2]]"
  have h1: "validate_global_consistency ?db GlobalScheduler_init = (True, [])" by code_simp
  have h2: "\<forall>s \<in> set (db_slots ?db). is_global_slot s \<longrightarrow>
      filter (\<lambda>e. fst e = slot_key s) (global_slots GlobalScheduler_init)
        = [(slot_key s, ss_department s)]"
    by code_simp
  have a: "admissible_run ?ops (?db, GlobalScheduler_init)" by code_simp
  have g: "map is_global_slot (db_slots (fst (run_ops ?ops (?db, GlobalScheduler_init))))
      = [False, True]"
    by code_simp
  have i: "global_slots (snd (run_ops ?ops (?db, GlobalScheduler_init))) = [((1, 0, 0), ''CS'')]"
    by code_simp
  from coordinator_consistency[OF h1 h2, of ?ops] h1 h2 a g i show ?thesis
    unfolding list_all_iff by blast
qed

end
